theory Spec2Isabelle
  imports Main "HOL-Library.AList"
begin

section \<open>JavaScript values\<close>

text \<open>
  The library (\<^verbatim>\<open>src/index.js\<close>) is an ES module of classes, so all of it is strict-mode
  code. Its data are JSON values and plain objects, and they appear here in two forms.

  What is parsed from a response, serialised into a request or read once from a
  configuration or an options object is a value (\<open>jsval\<close>): an object is the list of its
  own properties in the engine's order, the integer-like keys first, ascending, then the
  other keys in the order of their insertion. Nothing else refers to such an object, so
  its identity does not matter.

  What the program keeps and assigns to in place (the data of a document under
  \<^verbatim>\<open>get\<close> and \<^verbatim>\<open>set\<close>, the object handed to \<^verbatim>\<open>new Document\<close>) is a reference into
  a store of objects (section \<open>Objects in the store\<close>): two references to one object see each
  other's assignments, and a copy is another address.

  A string is a list of bytes. A number is a safe integer, from \<open>-(2\<^sup>5\<^sup>3 - 1)\<close> to
  \<open>2\<^sup>5\<^sup>3 - 1\<close>: each is a JavaScript number, and JavaScript prints each in plain decimal.
  Fractions, \<^verbatim>\<open>NaN\<close>, the infinities and the numbers beyond the safe integers are not
  values of the model.
\<close>

typedef safe_int = "{n :: int. \<bar>n\<bar> \<le> 9007199254740991}"
  morphisms int_of Safe
  by (rule exI[of _ 0]) simp

instantiation safe_int :: equal
begin

definition equal_safe_int :: "safe_int \<Rightarrow> safe_int \<Rightarrow> bool" where
  "equal_safe_int a b = (int_of a = int_of b)"

instance
  by standard (simp add: equal_safe_int_def int_of_inject)

end

datatype jsval =
    JUndefined
  | JNull
  | JBool bool
  | JNum safe_int
  | JStr string
  | JArr "jsval list"
  | JObj "(string \<times> jsval) list"

record http_response =
  status :: int
  body :: jsval

text \<open>
  What a \<^verbatim>\<open>catch\<close> block can receive: a \<^verbatim>\<open>TypeError\<close> of the engine, an
  \<^verbatim>\<open>Error\<close> the library throws itself, or the error object a rejected axios call carries
  (its \<^verbatim>\<open>message\<close> and, when the server answered, its \<^verbatim>\<open>response\<close>).
  \<open>Unmodelled\<close> is not a JavaScript exception: it marks an evaluation that leaves the
  fragment of the language modelled here (members inherited from the built-in prototypes,
  arrays with holes or with properties other than their elements, the characters of a
  string), and it is never caught.
\<close>

datatype js_exn =
    TypeError string
  | Error string
  | AxiosError string "http_response option"
  | Unmodelled

definition bindE :: "js_exn + 'a \<Rightarrow> ('a \<Rightarrow> js_exn + 'b) \<Rightarrow> js_exn + 'b" where
  "bindE r f = (case r of Inl e \<Rightarrow> Inl e | Inr x \<Rightarrow> f x)"

fun truthy :: "jsval \<Rightarrow> bool" where
  "truthy JUndefined = False"
| "truthy JNull = False"
| "truthy (JBool b) = b"
| "truthy (JNum n) = (int_of n \<noteq> 0)"
| "truthy (JStr s) = (s \<noteq> [])"
| "truthy (JArr xs) = True"
| "truthy (JObj kvs) = True"

text \<open>\<^verbatim>\<open>a || b\<close>\<close>

definition js_or :: "jsval \<Rightarrow> jsval \<Rightarrow> jsval" where
  "js_or a b = (if truthy a then a else b)"

subsection \<open>Conversion to strings\<close>

definition digit_char :: "nat \<Rightarrow> char" where
  "digit_char d = char_of (48 + d)"

fun show_nat :: "nat \<Rightarrow> string" where
  "show_nat n = (if n < 10 then [digit_char n] else show_nat (n div 10) @ [digit_char (n mod 10)])"

definition show_int :: "int \<Rightarrow> string" where
  "show_int i = (if i < 0 then CHR ''-'' # show_nat (nat (- i)) else show_nat (nat i))"

fun join :: "string \<Rightarrow> string list \<Rightarrow> string" where
  "join sep [] = []"
| "join sep [x] = x"
| "join sep (x # y # ys) = x @ sep @ join sep (y # ys)"

text \<open>
  \<^verbatim>\<open>String(v)\<close>, the conversion a template literal and \<^verbatim>\<open>URLSearchParams.append\<close>
  apply: a safe integer prints in plain decimal, an array joins its elements with commas
  (\<^verbatim>\<open>null\<close> and \<^verbatim>\<open>undefined\<close> elements as the empty string), a plain object is
  \<^verbatim>\<open>[object Object]\<close>. The last is \<^verbatim>\<open>Object.prototype.toString\<close>: an object that
  owns a property \<^verbatim>\<open>toString\<close> of its own (in JSON never a function) makes the
  conversion throw, and is outside what this function describes.
\<close>

fun to_string :: "jsval \<Rightarrow> string" where
  "to_string JUndefined = ''undefined''"
| "to_string JNull = ''null''"
| "to_string (JBool b) = (if b then ''true'' else ''false'')"
| "to_string (JNum n) = show_int (int_of n)"
| "to_string (JStr s) = s"
| "to_string (JArr xs) =
     join '','' (map (\<lambda>x. if x = JUndefined \<or> x = JNull then [] else to_string x) xs)"
| "to_string (JObj kvs) = ''[object Object]''"

subsection \<open>Properties\<close>

text \<open>The members every plain object inherits from \<^verbatim>\<open>Object.prototype\<close>.\<close>

definition object_prototype_keys :: "string list" where
  "object_prototype_keys =
     [''constructor'', ''__proto__'', ''hasOwnProperty'', ''isPrototypeOf'',
      ''propertyIsEnumerable'', ''toLocaleString'', ''toString'', ''valueOf'',
      ''__defineGetter__'', ''__defineSetter__'', ''__lookupGetter__'', ''__lookupSetter__'']"

text \<open>What \<^verbatim>\<open>Number.prototype\<close> adds to them (a boolean adds nothing).\<close>

definition number_prototype_keys :: "string list" where
  "number_prototype_keys = [''toExponential'', ''toFixed'', ''toPrecision'']"

text \<open>
  The property names the library itself reads from configurations, options, responses
  and records. None of them names a member of \<^verbatim>\<open>String.prototype\<close>, and only
  \<^verbatim>\<open>filter\<close> names a member of \<^verbatim>\<open>Array.prototype\<close>: reading one of the others from a
  string or an array yields \<^verbatim>\<open>undefined\<close>. The \<^verbatim>\<open>length\<close> and the methods of strings
  and arrays, and the characters of a string, are outside the model.
\<close>

definition record_keys :: "string list" where
  "record_keys =
     [''data'', ''id'', ''collection'', ''version'', ''created_at'', ''updated_at'', ''ttl_at'',
      ''error'', ''message'', ''pagination'', ''q'', ''order'', ''limit'', ''page'', ''filter'',
      ''baseURL'', ''apiKey'']"

text \<open>
  An array index is a key that is the canonical numeral of a number below \<open>2\<^sup>3\<^sup>2 - 1\<close>:
  a string of digits that printing its number gives back (so no leading zero). These are
  also the integer-like keys an object lists first.
\<close>

definition is_digit :: "char \<Rightarrow> bool" where
  "is_digit c = (let n = (of_char c :: nat) in 48 \<le> n \<and> n \<le> 57)"

definition digits_value :: "string \<Rightarrow> nat" where
  "digits_value k = foldl (\<lambda>a c. 10 * a + (of_char c - 48)) 0 k"

definition array_index :: "string \<Rightarrow> nat option" where
  "array_index k =
     (if k \<noteq> [] \<and> list_all is_digit k \<and> show_nat (digits_value k) = k
         \<and> digits_value k < 4294967295
      then Some (digits_value k) else None)"

text \<open>
  A new own property of an object: an integer-like key goes before the first key that is
  not integer-like or is a larger integer, any other key goes to the end.
\<close>

fun insert_index :: "nat \<Rightarrow> string \<times> 'v \<Rightarrow> (string \<times> 'v) list \<Rightarrow> (string \<times> 'v) list" where
  "insert_index i kv [] = [kv]"
| "insert_index i kv (e # es) =
     (case array_index (fst e) of
        Some j \<Rightarrow> if j < i then e # insert_index i kv es else kv # e # es
      | None \<Rightarrow> kv # e # es)"

text \<open>\<^verbatim>\<open>o[k] = v\<close> on the properties of an object: the value of an own key is replaced
  where the key stands, a new key is inserted.\<close>

definition obj_put :: "string \<Rightarrow> 'v \<Rightarrow> (string \<times> 'v) list \<Rightarrow> (string \<times> 'v) list" where
  "obj_put k v kvs =
     (if k \<in> fst ` set kvs then AList.update k v kvs
      else (case array_index k of
              Some i \<Rightarrow> insert_index i (k, v) kvs
            | None \<Rightarrow> kvs @ [(k, v)]))"

text \<open>The wording of V8's TypeErrors; another engine words them differently.\<close>

definition cannot_read :: "jsval \<Rightarrow> string \<Rightarrow> string" where
  "cannot_read v k = ''Cannot read properties of '' @ to_string v @ '' (reading '' @ [CHR 0x27] @ k @ [CHR 0x27] @ '')''"

definition cannot_set :: "jsval \<Rightarrow> string \<Rightarrow> string" where
  "cannot_set v k = ''Cannot set properties of '' @ to_string v @ '' (setting '' @ [CHR 0x27] @ k @ [CHR 0x27] @ '')''"

text \<open>\<^verbatim>\<open>typeof v\<close>\<close>

fun js_typeof :: "jsval \<Rightarrow> string" where
  "js_typeof JUndefined = ''undefined''"
| "js_typeof (JBool b) = ''boolean''"
| "js_typeof (JNum n) = ''number''"
| "js_typeof (JStr s) = ''string''"
| "js_typeof v = ''object''"

text \<open>For example \<^verbatim>\<open>Cannot create property 'b' on number '5'\<close>.\<close>

definition cannot_create :: "jsval \<Rightarrow> string \<Rightarrow> string" where
  "cannot_create v k =
     ''Cannot create property '' @ [CHR 0x27] @ k @ [CHR 0x27] @ '' on '' @ js_typeof v @ '' ''
       @ [CHR 0x27] @ to_string v @ [CHR 0x27]"


text \<open>
  \<^verbatim>\<open>v[k]\<close>, a read of a property: a TypeError on \<^verbatim>\<open>null\<close> and
  \<^verbatim>\<open>undefined\<close>, \<^verbatim>\<open>undefined\<close> for a name the value neither owns nor inherits.
\<close>

fun get_prop :: "jsval \<Rightarrow> string \<Rightarrow> js_exn + jsval" where
  "get_prop JUndefined k = Inl (TypeError (cannot_read JUndefined k))"
| "get_prop JNull k = Inl (TypeError (cannot_read JNull k))"
| "get_prop (JObj kvs) k =
     (case map_of kvs k of
        Some v \<Rightarrow> Inr v
      | None \<Rightarrow> if k \<in> set object_prototype_keys then Inl Unmodelled else Inr JUndefined)"
| "get_prop (JBool b) k =
     (if k \<in> set object_prototype_keys then Inl Unmodelled else Inr JUndefined)"
| "get_prop (JNum n) k =
     (if k \<in> set object_prototype_keys \<or> k \<in> set number_prototype_keys then Inl Unmodelled
      else Inr JUndefined)"
| "get_prop (JArr xs) k =
     (case array_index k of
        Some i \<Rightarrow> Inr (if i < length xs then xs ! i else JUndefined)
      | None \<Rightarrow>
          if k \<in> set record_keys \<and> k \<noteq> ''filter'' then Inr JUndefined else Inl Unmodelled)"
| "get_prop (JStr s) k = (if k \<in> set record_keys then Inr JUndefined else Inl Unmodelled)"

text \<open>\<^verbatim>\<open>v?.[k]\<close>\<close>

definition opt_get_prop :: "jsval \<Rightarrow> string \<Rightarrow> js_exn + jsval" where
  "opt_get_prop v k = (if v = JUndefined \<or> v = JNull then Inr JUndefined else get_prop v k)"

subsection \<open>Dot paths\<close>


section \<open>Objects in the store\<close>

text \<open>
  A value the program holds is a primitive or a reference \<open>HRef a\<close> to the object at
  address \<open>a\<close> of the store. The store is the list of the objects allocated so far: an
  object literal \<^verbatim>\<open>{}\<close> allocates at the end (address \<open>length s\<close>), nothing is ever freed,
  and an assignment to a property replaces the object at its address. An object is a
  plain object (its own properties, in the engine's order) or an array without holes and
  without properties other than its elements.
\<close>

datatype hval = HUndefined | HNull | HBool bool | HNum safe_int | HStr string | HRef nat

datatype hobj = HObject "(string \<times> hval) list" | HArray "hval list"

type_synonym store = "hobj list"

text \<open>A primitive as a value, for the text of a TypeError; it is not applied to references.\<close>

fun prim :: "hval \<Rightarrow> jsval" where
  "prim HUndefined = JUndefined"
| "prim HNull = JNull"
| "prim (HBool b) = JBool b"
| "prim (HNum n) = JNum n"
| "prim (HStr t) = JStr t"
| "prim (HRef a) = JObj []"

text \<open>Truthiness: every object is truthy.\<close>

fun h_truthy :: "hval \<Rightarrow> bool" where
  "h_truthy HUndefined = False"
| "h_truthy HNull = False"
| "h_truthy (HBool b) = b"
| "h_truthy (HNum n) = (int_of n \<noteq> 0)"
| "h_truthy (HStr t) = (t \<noteq> [])"
| "h_truthy (HRef a) = True"

text \<open>The own property \<open>k\<close> of an object: of an array, the element at the index \<open>k\<close>.\<close>

fun own_prop :: "hobj \<Rightarrow> string \<Rightarrow> hval option" where
  "own_prop (HObject kvs) k = map_of kvs k"
| "own_prop (HArray xs) k =
     (case array_index k of
        Some i \<Rightarrow> if i < length xs then Some (xs ! i) else None
      | None \<Rightarrow> None)"

text \<open>
  \<^verbatim>\<open>v[k]\<close>, a read: the own property; \<^verbatim>\<open>undefined\<close> for a name the object neither
  owns nor inherits; a TypeError on \<^verbatim>\<open>null\<close> and \<^verbatim>\<open>undefined\<close>. A member inherited
  from a built-in prototype, the \<^verbatim>\<open>length\<close> of an array and a reference to no object of
  the store are outside the model.
\<close>

fun h_get_prop :: "store \<Rightarrow> hval \<Rightarrow> string \<Rightarrow> js_exn + hval" where
  "h_get_prop s HUndefined k = Inl (TypeError (cannot_read JUndefined k))"
| "h_get_prop s HNull k = Inl (TypeError (cannot_read JNull k))"
| "h_get_prop s (HRef a) k =
     (if a < length s then
        (case own_prop (s ! a) k of
           Some v \<Rightarrow> Inr v
         | None \<Rightarrow>
            (case s ! a of
               HObject kvs \<Rightarrow>
                 if k \<in> set object_prototype_keys then Inl Unmodelled else Inr HUndefined
             | HArray xs \<Rightarrow>
                 if array_index k = None \<and> (k \<notin> set record_keys \<or> k = ''filter'')
                 then Inl Unmodelled else Inr HUndefined))
      else Inl Unmodelled)"
| "h_get_prop s (HBool b) k =
     (if k \<in> set object_prototype_keys then Inl Unmodelled else Inr HUndefined)"
| "h_get_prop s (HNum n) k =
     (if k \<in> set object_prototype_keys \<or> k \<in> set number_prototype_keys then Inl Unmodelled
      else Inr HUndefined)"
| "h_get_prop s (HStr t) k = (if k \<in> set record_keys then Inr HUndefined else Inl Unmodelled)"



text \<open>
  \<^verbatim>\<open>v[k] = x\<close> in strict mode, giving the store after the assignment. On a plain object
  it replaces the own property or adds one (also under a name the object inherits, which
  the own property then shadows); \<^verbatim>\<open>__proto__\<close> without an own property of that name is
  the inherited setter, outside the model. On an array it replaces an element or appends
  one at the index that is the length; an index beyond the length (which makes holes)
  and a name that is no index are outside the model. On \<^verbatim>\<open>null\<close>, \<^verbatim>\<open>undefined\<close> and
  the primitive values it throws (the read-only \<^verbatim>\<open>length\<close> and characters of a string
  have a TypeError of their own, outside the model).
\<close>

fun h_set_prop :: "store \<Rightarrow> hval \<Rightarrow> string \<Rightarrow> hval \<Rightarrow> js_exn + store" where
  "h_set_prop s (HRef a) k x =
     (if a < length s then
        (case s ! a of
           HObject kvs \<Rightarrow>
             if k = ''__proto__'' \<and> k \<notin> fst ` set kvs then Inl Unmodelled
             else Inr (s[a := HObject (obj_put k x kvs)])
         | HArray xs \<Rightarrow>
             (case array_index k of
                Some i \<Rightarrow>
                  if i < length xs then Inr (s[a := HArray (xs[i := x])])
                  else if i = length xs then Inr (s[a := HArray (xs @ [x])])
                  else Inl Unmodelled
              | None \<Rightarrow> Inl Unmodelled))
      else Inl Unmodelled)"
| "h_set_prop s HUndefined k x = Inl (TypeError (cannot_set JUndefined k))"
| "h_set_prop s HNull k x = Inl (TypeError (cannot_set JNull k))"
| "h_set_prop s (HStr t) k x =
     (if k = ''__proto__'' \<or> k = ''length'' \<or> array_index k \<noteq> None then Inl Unmodelled
      else Inl (TypeError (cannot_create (JStr t) k)))"
| "h_set_prop s v k x =
     (if k = ''__proto__'' then Inl Unmodelled else Inl (TypeError (cannot_create (prim v) k)))"

subsection \<open>Nested values\<close>





section \<open>The client context\<close>

text \<open>
  The instance \<^verbatim>\<open>axios.create({baseURL, headers})\<close> returns: axios (an external
  library) sends every request of an instance with the instance's headers, to a URL
  resolved against its base URL.
\<close>

record axios_instance =
  ax_baseURL :: jsval
  ax_headers :: "(string \<times> string) list"

record s5client =
  baseURL :: jsval
  apiKey :: jsval
  collection :: jsval
  axios :: axios_instance

section \<open>Documents\<close>

text \<open>
  The fields the constructor assigns. \<open>doc_client\<close> is \<open>None\<close> for a document built
  with no client (\<^verbatim>\<open>undefined\<close>). The fields are values (\<open>jsval document\<close>) in the
  operations that build a document from a parsed record and serialise its data, and
  primitives or references (\<open>hval document\<close>) where the data is an object of the store.
\<close>

record 'v document =
  doc_data :: 'v
  doc_client :: "s5client option"
  doc_id :: 'v
  doc_collection :: 'v
  doc_version :: 'v
  doc_created_at :: 'v
  doc_updated_at :: 'v
  doc_ttl_at :: 'v



section \<open>The transport\<close>

datatype http_method = GET | POST | PUT | PATCH | DELETE

text \<open>
  A request as the library hands it to its axios instance: the method, the URL relative
  to the instance's base URL, the body object (before axios serialises it), and the base
  URL and headers of the instance that sends it.
\<close>

record request =
  rq_method :: http_method
  rq_url :: string
  rq_body :: "jsval option"
  rq_baseURL :: jsval
  rq_headers :: "(string \<times> string) list"

definition axios_request :: "s5client \<Rightarrow> http_method \<Rightarrow> string \<Rightarrow> jsval option \<Rightarrow> request" where
  "axios_request client m url payload =
     \<lparr>rq_method = m, rq_url = url, rq_body = payload,
      rq_baseURL = ax_baseURL (axios client), rq_headers = ax_headers (axios client)\<rparr>"

text \<open>
  What comes back for a request: no answer at all (with the transport's error text), or
  the server's status and parsed body. The server is a parameter \<open>srv\<close> of every operation.
\<close>

datatype reply = NetworkError string | Reply int jsval

text \<open>
  axios with its default \<^verbatim>\<open>validateStatus\<close>: the promise resolves with the response
  for a status from 200 to 299 and rejects otherwise, with an error that carries the
  response; with no answer it rejects with an error that has no response.
\<close>

definition settle :: "reply \<Rightarrow> js_exn + http_response" where
  "settle r =
     (case r of
        NetworkError text \<Rightarrow> Inl (AxiosError text None)
      | Reply st b \<Rightarrow>
          if 200 \<le> st \<and> st < 300 then Inr \<lparr>status = st, body = b\<rparr>
          else Inl (AxiosError (''Request failed with status code '' @ show_int st)
                      (Some \<lparr>status = st, body = b\<rparr>)))"

subsection \<open>What a catch block reads from the error\<close>

definition exn_response :: "js_exn \<Rightarrow> http_response option" where
  "exn_response e = (case e of AxiosError text r \<Rightarrow> r | _ \<Rightarrow> None)"

definition exn_message :: "js_exn \<Rightarrow> string" where
  "exn_message e =
     (case e of AxiosError text r \<Rightarrow> text | TypeError text \<Rightarrow> text | Error text \<Rightarrow> text
      | Unmodelled \<Rightarrow> [])"

text \<open>\<^verbatim>\<open>${error.response?.data?.error?.message || error.message}\<close>\<close>

definition failure_text :: "js_exn \<Rightarrow> js_exn + string" where
  "failure_text e =
     bindE (case exn_response e of
              None \<Rightarrow> Inr JUndefined
            | Some r \<Rightarrow> bindE (opt_get_prop (body r) ''error'') (\<lambda>er. opt_get_prop er ''message''))
       (\<lambda>m. Inr (to_string (js_or m (JStr (exn_message e)))))"

text \<open>
  \<^verbatim>\<open>throw new Error(`<label>${...}`)\<close> in a catch block: the exception that leaves the
  operation.
\<close>

definition op_failed :: "string \<Rightarrow> js_exn \<Rightarrow> js_exn" where
  "op_failed label e =
     (case e of
        Unmodelled \<Rightarrow> Unmodelled
      | _ \<Rightarrow> (case failure_text e of Inl x \<Rightarrow> x | Inr text \<Rightarrow> Error (label @ text)))"

section \<open>S5Client\<close>

text \<open>
  \<^verbatim>\<open>
  constructor(config = {}) {
    this.baseURL = config.baseURL || "https://s5.host/api/v1";
    this.apiKey = config.apiKey;
    this.collection = config.collection;
    if (!this.apiKey) { throw new Error("API key is required"); }
    if (!this.collection) { throw new Error("Collection name is required"); }
    this.axios = axios.create({ baseURL: this.baseURL,
      headers: { Authorization: `Bearer ${this.apiKey}`, "Content-Type": "application/json" } });
  }
  \<close>
\<close>

definition S5Client_constructor :: "jsval \<Rightarrow> js_exn + s5client" where
  "S5Client_constructor config0 =
     (let config = (if config0 = JUndefined then JObj [] else config0) in
      bindE (get_prop config ''baseURL'') (\<lambda>b.
      bindE (get_prop config ''apiKey'') (\<lambda>k.
      bindE (get_prop config ''collection'') (\<lambda>c.
        if \<not> truthy k then Inl (Error ''API key is required'')
        else if \<not> truthy c then Inl (Error ''Collection name is required'')
        else Inr \<lparr>baseURL = js_or b (JStr ''https://s5.host/api/v1''), apiKey = k, collection = c,
                  axios = \<lparr>ax_baseURL = js_or b (JStr ''https://s5.host/api/v1''),
                            ax_headers = [(''Authorization'', ''Bearer '' @ to_string k),
                                          (''Content-Type'', ''application/json'')]\<rparr>\<rparr>))))"

section \<open>The Document constructor\<close>

text \<open>
  \<^verbatim>\<open>
  constructor(data = {}, client) {
    this.data = data.data || data;
    this.client = client;
    this.id = data.id; this.collection = data.collection; this.version = data.version;
    this.created_at = data.created_at; this.updated_at = data.updated_at;
    this.ttl_at = data.ttl_at;
  }
  \<close>
  The default applies to \<^verbatim>\<open>undefined\<close> only; \<^verbatim>\<open>null\<close> fails at the first read.
\<close>

definition Document_constructor :: "jsval \<Rightarrow> s5client option \<Rightarrow> js_exn + jsval document" where
  "Document_constructor data0 client =
     (let d = (if data0 = JUndefined then JObj [] else data0) in
      bindE (get_prop d ''data'') (\<lambda>dd.
      bindE (get_prop d ''id'') (\<lambda>i.
      bindE (get_prop d ''collection'') (\<lambda>c.
      bindE (get_prop d ''version'') (\<lambda>v.
      bindE (get_prop d ''created_at'') (\<lambda>ca.
      bindE (get_prop d ''updated_at'') (\<lambda>ua.
      bindE (get_prop d ''ttl_at'') (\<lambda>t.
        Inr \<lparr>doc_data = js_or dd d, doc_client = client, doc_id = i, doc_collection = c,
             doc_version = v, doc_created_at = ca, doc_updated_at = ua, doc_ttl_at = t\<rparr>))))))))"

text \<open>
  \<open>Document_constructor\<close> is the constructor on a record read as a value, as the
  operations apply it to the record just parsed from a response. \<open>new_Document\<close> is the
  same constructor on a reference into the store, as a caller applies it to an object of
  its own: \<^verbatim>\<open>data = {}\<close> allocates the default, the reads go through the reference, and
  \<^verbatim>\<open>data.data || data\<close> is the nested value or the reference itself. The result is the
  document and the store after the call.
\<close>

definition new_Document :: "store \<Rightarrow> hval \<Rightarrow> s5client option \<Rightarrow> js_exn + (hval document \<times> store)" where
  "new_Document s data0 client =
     (let d = (if data0 = HUndefined then HRef (length s) else data0);
          s1 = (if data0 = HUndefined then s @ [HObject []] else s) in
      bindE (h_get_prop s1 d ''data'') (\<lambda>dd.
      bindE (h_get_prop s1 d ''id'') (\<lambda>i.
      bindE (h_get_prop s1 d ''collection'') (\<lambda>c.
      bindE (h_get_prop s1 d ''version'') (\<lambda>v.
      bindE (h_get_prop s1 d ''created_at'') (\<lambda>ca.
      bindE (h_get_prop s1 d ''updated_at'') (\<lambda>ua.
      bindE (h_get_prop s1 d ''ttl_at'') (\<lambda>t.
        Inr (\<lparr>doc_data = (if h_truthy dd then dd else d), doc_client = client, doc_id = i,
              doc_collection = c, doc_version = v, doc_created_at = ca, doc_updated_at = ua,
              doc_ttl_at = t\<rparr>, s1)))))))))"

text \<open>
  The classes the static methods run on. \<^verbatim>\<open>const { client } = this\<close> in a static method
  reads the static property \<^verbatim>\<open>client\<close> of the class. Only the class that
  \<^verbatim>\<open>createCollection(collection, client)\<close> returns defines it
  (\<^verbatim>\<open>static get client() { return client; }\<close>); on the base class \<^verbatim>\<open>Document\<close> it
  is \<^verbatim>\<open>undefined\<close>.
\<close>

definition createCollection :: "jsval \<Rightarrow> s5client \<Rightarrow> s5client option" where
  "createCollection collection_name client = Some client"

definition Document_class :: "s5client option" where
  "Document_class = None"

section \<open>Query strings\<close>

text \<open>
  \<^verbatim>\<open>URLSearchParams\<close> is the list of its name-value pairs; \<^verbatim>\<open>append\<close> adds one at the
  end, the value converted to a string. \<^verbatim>\<open>`${params}`\<close> is the
  \<^verbatim>\<open>application/x-www-form-urlencoded\<close> serialisation: letters, digits and
  \<^verbatim>\<open>* - . _\<close> stay, a space becomes \<^verbatim>\<open>+\<close>, every other byte is \<^verbatim>\<open>%XX\<close>.
\<close>

definition params_append :: "(string \<times> string) list \<Rightarrow> string \<Rightarrow> jsval \<Rightarrow> (string \<times> string) list" where
  "params_append params name v = params @ [(name, to_string v)]"

definition hex_upper :: "nat \<Rightarrow> char" where
  "hex_upper d = (if d < 10 then char_of (48 + d) else char_of (55 + d))"

definition urlencode_byte :: "char \<Rightarrow> string" where
  "urlencode_byte c =
     (let n = (of_char c :: nat) in
      if (48 \<le> n \<and> n \<le> 57) \<or> (65 \<le> n \<and> n \<le> 90) \<or> (97 \<le> n \<and> n \<le> 122)
         \<or> c = CHR ''*'' \<or> c = CHR ''-'' \<or> c = CHR ''.'' \<or> c = CHR ''_'' then [c]
      else if c = CHR '' '' then ''+''
      else [CHR ''%'', hex_upper (n div 16), hex_upper (n mod 16)])"

definition urlencode :: "string \<Rightarrow> string" where
  "urlencode s = concat (map urlencode_byte s)"

definition urlencoded_serialize :: "(string \<times> string) list \<Rightarrow> string" where
  "urlencoded_serialize params = join ''&'' (map (\<lambda>(n, v). urlencode n @ ''='' @ urlencode v) params)"

subsection \<open>JSON.stringify\<close>

definition hex_lower :: "nat \<Rightarrow> char" where
  "hex_lower d = (if d < 10 then char_of (48 + d) else char_of (87 + d))"

definition json_escape :: "char \<Rightarrow> string" where
  "json_escape c =
     (let n = (of_char c :: nat) in
      if c = CHR 0x22 then [CHR 0x5C, CHR 0x22]
      else if c = CHR 0x5C then [CHR 0x5C, CHR 0x5C]
      else if n = 8 then [CHR 0x5C, CHR ''b'']
      else if n = 9 then [CHR 0x5C, CHR ''t'']
      else if n = 10 then [CHR 0x5C, CHR ''n'']
      else if n = 12 then [CHR 0x5C, CHR ''f'']
      else if n = 13 then [CHR 0x5C, CHR ''r'']
      else if n < 32 then [CHR 0x5C, CHR ''u'', CHR ''0'', CHR ''0'', hex_lower (n div 16), hex_lower (n mod 16)]
      else [c])"

definition json_quote :: "string \<Rightarrow> string" where
  "json_quote s = [CHR 0x22] @ concat (map json_escape s) @ [CHR 0x22]"

text \<open>
  The text \<^verbatim>\<open>JSON.stringify(v)\<close> returns, \<open>None\<close> where it returns
  \<^verbatim>\<open>undefined\<close>: an \<^verbatim>\<open>undefined\<close> element of an array prints as \<^verbatim>\<open>null\<close>, an
  \<^verbatim>\<open>undefined\<close> property of an object is left out.
\<close>

fun json_text :: "jsval \<Rightarrow> string option" where
  "json_text JUndefined = None"
| "json_text JNull = Some ''null''"
| "json_text (JBool b) = Some (if b then ''true'' else ''false'')"
| "json_text (JNum n) = Some (show_int (int_of n))"
| "json_text (JStr s) = Some (json_quote s)"
| "json_text (JArr xs) =
     Some (''['' @ join '','' (map (\<lambda>x. case json_text x of None \<Rightarrow> ''null'' | Some t \<Rightarrow> t) xs) @ '']'')"
| "json_text (JObj kvs) =
     Some (''{'' @ join '',''
        (concat (map (\<lambda>(k, v). case json_text v of None \<Rightarrow> [] | Some t \<Rightarrow> [json_quote k @ '':'' @ t]) kvs))
        @ ''}'')"

definition JSON_stringify :: "jsval \<Rightarrow> jsval" where
  "JSON_stringify v = (case json_text v of None \<Rightarrow> JUndefined | Some t \<Rightarrow> JStr t)"

section \<open>Static operations\<close>

text \<open>
  The query parameters \<^verbatim>\<open>where\<close> builds before its \<^verbatim>\<open>try\<close> block:
  \<^verbatim>\<open>
  if (options.q) {
    const queries = Array.isArray(options.q) ? options.q : [options.q];
    queries.forEach((q) => params.append("q", q)); }
  if (options.order) { ... the same with "order" ... }
  if (options.limit) params.append("limit", options.limit);
  if (options.page) params.append("page", options.page);
  if (options.filter) { params.append("filter", JSON.stringify(options.filter)); }
  \<close>
\<close>

definition as_list :: "jsval \<Rightarrow> jsval list" where
  "as_list v = (case v of JArr xs \<Rightarrow> xs | _ \<Rightarrow> [v])"

definition append_each :: "(string \<times> string) list \<Rightarrow> string \<Rightarrow> jsval \<Rightarrow> (string \<times> string) list" where
  "append_each params name v =
     (if truthy v then fold (\<lambda>x ps. params_append ps name x) (as_list v) params else params)"

definition where_params :: "jsval \<Rightarrow> js_exn + (string \<times> string) list" where
  "where_params options0 =
     (let options = (if options0 = JUndefined then JObj [] else options0) in
      bindE (get_prop options ''q'') (\<lambda>q.
      let p1 = append_each [] ''q'' q in
      bindE (get_prop options ''order'') (\<lambda>order.
      let p2 = append_each p1 ''order'' order in
      bindE (get_prop options ''limit'') (\<lambda>limit.
      let p3 = (if truthy limit then params_append p2 ''limit'' limit else p2) in
      bindE (get_prop options ''page'') (\<lambda>page.
      let p4 = (if truthy page then params_append p3 ''page'' page else p3) in
      bindE (get_prop options ''filter'') (\<lambda>filter.
      Inr (if truthy filter then params_append p4 ''filter'' (JSON_stringify filter) else p4)))))))"

record where_result =
  documents :: "jsval document list"
  pagination :: "jsval option"

text \<open>\<^verbatim>\<open>records.map((doc) => new Document(doc, client))\<close>\<close>

fun map_documents :: "jsval list \<Rightarrow> s5client option \<Rightarrow> js_exn + jsval document list" where
  "map_documents [] client = Inr []"
| "map_documents (r # rs) client =
     bindE (Document_constructor r client) (\<lambda>d.
     bindE (map_documents rs client) (\<lambda>ds. Inr (d # ds)))"

definition array_map_documents :: "jsval \<Rightarrow> s5client option \<Rightarrow> js_exn + jsval document list" where
  "array_map_documents v client =
     (case v of
        JArr rs \<Rightarrow> map_documents rs client
      | JUndefined \<Rightarrow> Inl (TypeError (cannot_read v ''map''))
      | JNull \<Rightarrow> Inl (TypeError (cannot_read v ''map''))
      | _ \<Rightarrow> Inl (TypeError ''response.data.data.data.map is not a function''))"

text \<open>
  The body of the \<^verbatim>\<open>try\<close> block of \<^verbatim>\<open>where\<close> after the response has arrived.
\<close>

definition where_unwrap :: "http_response \<Rightarrow> s5client option \<Rightarrow> js_exn + where_result" where
  "where_unwrap response client =
     bindE (get_prop (body response) ''data'') (\<lambda>d1.
     bindE (get_prop d1 ''data'') (\<lambda>records.
     bindE (array_map_documents records client) (\<lambda>docs.
     bindE (get_prop d1 ''pagination'') (\<lambda>pg.
     Inr \<lparr>documents = docs, pagination = (if truthy pg then Some pg else None)\<rparr>))))"

text \<open>
  \<^verbatim>\<open>static async where(options = {})\<close> on the class whose static client is \<open>cls\<close>:
  the outcome and the requests issued. The parameters are built outside the
  \<^verbatim>\<open>try\<close>, so an exception raised there is not relabelled; with no client the call
  \<^verbatim>\<open>client.axios.get\<close> throws inside the \<^verbatim>\<open>try\<close> before any request.
\<close>

definition Document_where ::
  "s5client option \<Rightarrow> (request \<Rightarrow> reply) \<Rightarrow> jsval \<Rightarrow> (js_exn + where_result) \<times> request list" where
  "Document_where cls srv options =
     (case where_params options of
        Inl e \<Rightarrow> (Inl e, [])
      | Inr params \<Rightarrow>
          (case cls of
             None \<Rightarrow> (Inl (op_failed ''Query failed: '' (TypeError (cannot_read JUndefined ''axios''))), [])
           | Some client \<Rightarrow>
               (let rq = axios_request client GET
                           (''/'' @ to_string (collection client) @ ''?'' @ urlencoded_serialize params) None in
                (case bindE (settle (srv rq)) (\<lambda>response. where_unwrap response cls) of
                   Inl e \<Rightarrow> (Inl (op_failed ''Query failed: '' e), [rq])
                 | Inr result \<Rightarrow> (Inr result, [rq])))))"

text \<open>
  \<^verbatim>\<open>
  static async find(id) {
    const { client } = this;
    try {
      const response = await client.axios.get(`/${client.collection}/${id}`);
      return new Document(response.data.data, client);
    } catch (error) {
      if (error.response?.status === 404) { return null; }
      throw new Error(`Find failed: ${error.response?.data?.error?.message || error.message}`);
    }
  }
  \<close>
  \<open>None\<close> is the result \<^verbatim>\<open>null\<close>.
\<close>

definition find_catch :: "js_exn \<Rightarrow> js_exn + jsval document option" where
  "find_catch e =
     (if map_option status (exn_response e) = Some 404 then Inr None
      else Inl (op_failed ''Find failed: '' e))"

definition Document_find ::
  "s5client option \<Rightarrow> (request \<Rightarrow> reply) \<Rightarrow> jsval \<Rightarrow> (js_exn + jsval document option) \<times> request list" where
  "Document_find cls srv ident =
     (case cls of
        None \<Rightarrow> (find_catch (TypeError (cannot_read JUndefined ''axios'')), [])
      | Some client \<Rightarrow>
          (let rq = axios_request client GET
                      (''/'' @ to_string (collection client) @ ''/'' @ to_string ident) None in
           (case bindE (settle (srv rq)) (\<lambda>response.
                   bindE (get_prop (body response) ''data'') (\<lambda>r. Document_constructor r cls)) of
              Inl e \<Rightarrow> (find_catch e, [rq])
            | Inr d \<Rightarrow> (Inr (Some d), [rq]))))"

text \<open>\<^verbatim>\<open>{ ...a, ...b }\<close>: the own enumerable properties of \<open>a\<close>, then those of \<open>b\<close>.\<close>

fun own_entries :: "jsval \<Rightarrow> (string \<times> jsval) list" where
  "own_entries (JObj kvs) = kvs"
| "own_entries (JArr xs) = zip (map show_nat [0..<length xs]) xs"
| "own_entries (JStr s) = zip (map show_nat [0..<length s]) (map (\<lambda>c. JStr [c]) s)"
| "own_entries v = []"

definition assign_all :: "(string \<times> jsval) list \<Rightarrow> (string \<times> jsval) list \<Rightarrow> (string \<times> jsval) list" where
  "assign_all entries kvs = fold (\<lambda>(k, v). obj_put k v) entries kvs"

definition spread2 :: "jsval \<Rightarrow> jsval \<Rightarrow> jsval" where
  "spread2 a b = JObj (assign_all (own_entries b) (assign_all (own_entries a) []))"




section \<open>Instance operations\<close>

text \<open>
  An instance operation gives its outcome, the document afterwards (\<^verbatim>\<open>this\<close>) and the
  requests issued. The operations that return \<^verbatim>\<open>this\<close> have the outcome \<open>Inr ()\<close>.
  \<^verbatim>\<open>Object.assign(this, newDoc)\<close> copies every field the constructor assigned, so
  \<^verbatim>\<open>this\<close> becomes the new document.
\<close>

text \<open>
  The \<^verbatim>\<open>try\<close> block that \<^verbatim>\<open>create()\<close>, \<^verbatim>\<open>update()\<close> and \<^verbatim>\<open>patch()\<close> share,
  with the method, the URL, the payload and the label of the catch block:
  \<^verbatim>\<open>
  try {
    const response = await client.axios.<method>(<url>, payload);
    const newDoc = new Document(response.data.data, client);
    Object.assign(this, newDoc);
    return this;
  } catch (error) { throw new Error(`<label>${...}`); }
  \<close>
  With no client, \<^verbatim>\<open>client.axios\<close> throws before the URL is built and before any
  request.
\<close>

definition round_trip ::
  "(request \<Rightarrow> reply) \<Rightarrow> jsval document \<Rightarrow> http_method \<Rightarrow> (s5client \<Rightarrow> string) \<Rightarrow> jsval \<Rightarrow> string
     \<Rightarrow> (js_exn + unit) \<times> jsval document \<times> request list" where
  "round_trip srv this m url payload label =
     (case doc_client this of
        None \<Rightarrow> (Inl (op_failed label (TypeError (cannot_read JUndefined ''axios''))), this, [])
      | Some client \<Rightarrow>
          (let rq = axios_request client m (url client) (Some payload) in
           (case bindE (settle (srv rq)) (\<lambda>response.
                   bindE (get_prop (body response) ''data'') (\<lambda>r.
                   Document_constructor r (Some client))) of
              Inl e \<Rightarrow> (Inl (op_failed label e), this, [rq])
            | Inr newDoc \<Rightarrow> (Inr (), newDoc, [rq]))))"

text \<open>
  \<^verbatim>\<open>async create()\<close>:
  \<^verbatim>\<open>payload = { data: this.data, ttl_at: this.ttl_at }\<close>,
  \<^verbatim>\<open>client.axios.post(`/${client.collection}`, payload)\<close>.
\<close>

definition Document_create ::
  "(request \<Rightarrow> reply) \<Rightarrow> jsval document \<Rightarrow> (js_exn + unit) \<times> jsval document \<times> request list" where
  "Document_create srv this =
     round_trip srv this POST (\<lambda>client. ''/'' @ to_string (collection client))
       (JObj [(''data'', doc_data this), (''ttl_at'', doc_ttl_at this)]) ''Create failed: ''"

text \<open>
  \<^verbatim>\<open>async update(data = null)\<close>:
  \<^verbatim>\<open>if (data) { this.data = { ...this.data, ...data }; }\<close>, then
  \<^verbatim>\<open>client.axios.put(`/${client.collection}/${this.id}`, payload)\<close> with the same
  payload as \<^verbatim>\<open>create()\<close>. The default applies to \<^verbatim>\<open>undefined\<close>.
\<close>

definition Document_update ::
  "(request \<Rightarrow> reply) \<Rightarrow> jsval document \<Rightarrow> jsval \<Rightarrow> (js_exn + unit) \<times> jsval document \<times> request list" where
  "Document_update srv this data0 =
     (let d = (if data0 = JUndefined then JNull else data0);
          this1 = (if truthy d then this\<lparr>doc_data := spread2 (doc_data this) d\<rparr> else this)
      in round_trip srv this1 PUT
           (\<lambda>client. ''/'' @ to_string (collection client) @ ''/'' @ to_string (doc_id this1))
           (JObj [(''data'', doc_data this1), (''ttl_at'', doc_ttl_at this1)]) ''Update failed: '')"

text \<open>
  \<^verbatim>\<open>async patch(data)\<close>: \<^verbatim>\<open>payload = { data }\<close>,
  \<^verbatim>\<open>client.axios.patch(`/${client.collection}/${this.id}/patch`, payload)\<close>.
\<close>

definition Document_patch ::
  "(request \<Rightarrow> reply) \<Rightarrow> jsval document \<Rightarrow> jsval \<Rightarrow> (js_exn + unit) \<times> jsval document \<times> request list" where
  "Document_patch srv this d =
     round_trip srv this PATCH
       (\<lambda>client. ''/'' @ to_string (collection client) @ ''/'' @ to_string (doc_id this) @ ''/patch'')
       (JObj [(''data'', d)]) ''Patch failed: ''"

text \<open>
  \<^verbatim>\<open>async save() { if (this.id) { return this.update(); } else { return this.create(); } }\<close>
\<close>

definition Document_save ::
  "(request \<Rightarrow> reply) \<Rightarrow> jsval document \<Rightarrow> (js_exn + unit) \<times> jsval document \<times> request list" where
  "Document_save srv this =
     (if truthy (doc_id this) then Document_update srv this JUndefined else Document_create srv this)"

text \<open>
  \<^verbatim>\<open>
  async destroy() {
    const { client } = this;
    try { await client.axios.delete(`/${client.collection}/${this.id}`); return true; }
    catch (error) { throw new Error(`Delete failed: ${...}`); }
  }
  \<close>
\<close>

definition Document_destroy ::
  "(request \<Rightarrow> reply) \<Rightarrow> jsval document \<Rightarrow> (js_exn + bool) \<times> jsval document \<times> request list" where
  "Document_destroy srv this =
     (case doc_client this of
        None \<Rightarrow> (Inl (op_failed ''Delete failed: '' (TypeError (cannot_read JUndefined ''axios''))), this, [])
      | Some client \<Rightarrow>
          (let rq = axios_request client DELETE
                      (''/'' @ to_string (collection client) @ ''/'' @ to_string (doc_id this)) None in
           (case settle (srv rq) of
              Inl e \<Rightarrow> (Inl (op_failed ''Delete failed: '' e), this, [rq])
            | Inr response \<Rightarrow> (Inr True, this, [rq]))))"

text \<open>
  \<^verbatim>\<open>
  async reload() {
    if (!this.id) { throw new Error("Cannot reload document without ID"); }
    const fresh = await Document.find(this.id);
    if (fresh) { Object.assign(this, fresh); }
    return this;
  }
  \<close>
  The call is \<^verbatim>\<open>Document.find\<close>: the static method runs on the base class, whatever
  class the instance came from.
\<close>

definition Document_reload ::
  "(request \<Rightarrow> reply) \<Rightarrow> jsval document \<Rightarrow> (js_exn + unit) \<times> jsval document \<times> request list" where
  "Document_reload srv this =
     (if \<not> truthy (doc_id this) then (Inl (Error ''Cannot reload document without ID''), this, [])
      else (case Document_find Document_class srv (doc_id this) of
              (Inl e, log) \<Rightarrow> (Inl e, this, log)
            | (Inr None, log) \<Rightarrow> (Inr (), this, log)
            | (Inr (Some fresh), log) \<Rightarrow> (Inr (), fresh, log)))"

section \<open>Notions the statements use\<close>

text \<open>The own property \<open>k\<close> of a plain object, \<^verbatim>\<open>undefined\<close> where there is none.\<close>

fun field :: "jsval \<Rightarrow> string \<Rightarrow> jsval" where
  "field (JObj kvs) k = (case map_of kvs k of Some v \<Rightarrow> v | None \<Rightarrow> JUndefined)"
| "field v k = JUndefined"

text \<open>The own property \<open>k\<close> among the properties of an object of the store.\<close>

definition hfield :: "(string \<times> hval) list \<Rightarrow> string \<Rightarrow> hval" where
  "hfield kvs k = (case map_of kvs k of Some v \<Rightarrow> v | None \<Rightarrow> HUndefined)"










text \<open>The structured error message of a response body: its \<^verbatim>\<open>error.message\<close>.\<close>

definition server_message :: "jsval \<Rightarrow> jsval" where
  "server_message b = field (field b ''error'') ''message''"

text \<open>The parameters one option contributes to a query.\<close>

definition each_param :: "string \<Rightarrow> jsval \<Rightarrow> (string \<times> string) list" where
  "each_param name v = (if truthy v then map (\<lambda>x. (name, to_string x)) (as_list v) else [])"

definition one_param :: "string \<Rightarrow> jsval \<Rightarrow> (string \<times> string) list" where
  "one_param name v = (if truthy v then [(name, to_string v)] else [])"

definition filter_param :: "jsval \<Rightarrow> (string \<times> string) list" where
  "filter_param v = (if truthy v then [(''filter'', to_string (JSON_stringify v))] else [])"

text \<open>
  The document whose fields are the own top-level properties of a record \<open>r\<close> (no record
  given: of the empty object), its data the record's \<^verbatim>\<open>data\<close> where that is truthy and
  the record itself otherwise.
\<close>

definition document_of_record :: "jsval \<Rightarrow> s5client option \<Rightarrow> jsval document" where
  "document_of_record r client =
     (let d = (if r = JUndefined then JObj [] else r) in
      \<lparr>doc_data = (if truthy (field d ''data'') then field d ''data'' else d),
       doc_client = client, doc_id = field d ''id'', doc_collection = field d ''collection'',
       doc_version = field d ''version'', doc_created_at = field d ''created_at'',
       doc_updated_at = field d ''updated_at'', doc_ttl_at = field d ''ttl_at''\<rparr>)"

text \<open>
  What a failed round trip reports after the label of its operation: the transport's text
  when no answer came; for an answer outside 200 to 299 the server's message where it is
  truthy, and axios's text for the status otherwise.
\<close>

definition reported_text :: "reply \<Rightarrow> string" where
  "reported_text r =
     (case r of
        NetworkError text \<Rightarrow> text
      | Reply st b \<Rightarrow>
          if truthy (server_message b) then to_string (server_message b)
          else ''Request failed with status code '' @ show_int st)"

text \<open>
  What the round trip of \<^verbatim>\<open>create()\<close>, \<^verbatim>\<open>update()\<close> and \<^verbatim>\<open>find\<close> makes of a
  reply: a document built from the record \<^verbatim>\<open>response.data.data\<close> of a 2xx answer, and
  otherwise the text of the error (a 2xx answer whose body or record is \<^verbatim>\<open>null\<close> fails
  in the engine at the read of \<^verbatim>\<open>data\<close>).
\<close>

definition record_outcome :: "s5client \<Rightarrow> reply \<Rightarrow> string + jsval document" where
  "record_outcome client r =
     (case r of
        NetworkError text \<Rightarrow> Inl text
      | Reply st b \<Rightarrow>
          if 200 \<le> st \<and> st < 300 then
            (if b = JUndefined then Inl (cannot_read JUndefined ''data'')
             else if b = JNull \<or> field b ''data'' = JNull then Inl (cannot_read JNull ''data'')
             else Inr (document_of_record (field b ''data'') (Some client)))
          else Inl (reported_text r))"

definition answered_2xx :: "reply \<Rightarrow> bool" where
  "answered_2xx r = (case r of NetworkError text \<Rightarrow> False | Reply st b \<Rightarrow> 200 \<le> st \<and> st < 300)"

text \<open>A server that gives every request the same reply.\<close>

definition constant_server :: "reply \<Rightarrow> request \<Rightarrow> reply" where
  "constant_server r rq = r"

text \<open>An option that may be left out of an options object.\<close>

definition opt_field :: "('a \<Rightarrow> jsval) \<Rightarrow> 'a option \<Rightarrow> jsval" where
  "opt_field f x = (case x of None \<Rightarrow> JUndefined | Some y \<Rightarrow> f y)"

text \<open>A client and documents for the concrete evaluations below.\<close>

definition users_client :: s5client where
  "users_client =
     \<lparr>baseURL = JStr ''https://s5.host/api/v1'', apiKey = JStr ''ak_1'', collection = JStr ''users'',
      axios = \<lparr>ax_baseURL = JStr ''https://s5.host/api/v1'',
                ax_headers = [(''Authorization'', ''Bearer ak_1''), (''Content-Type'', ''application/json'')]\<rparr>\<rparr>"

definition blank_document :: "jsval \<Rightarrow> jsval \<Rightarrow> jsval document" where
  "blank_document ident d =
     \<lparr>doc_data = d, doc_client = Some users_client, doc_id = ident, doc_collection = JUndefined,
      doc_version = JUndefined, doc_created_at = JUndefined, doc_updated_at = JUndefined,
      doc_ttl_at = JUndefined\<rparr>"


section \<open>Properties of the values\<close>


lemma int_of_Safe: "\<bar>n\<bar> \<le> 9007199254740991 \<Longrightarrow> int_of (Safe n) = n"
  by (simp add: Safe_inverse)

lemma Safe_eq:
  "\<bar>m\<bar> \<le> 9007199254740991 \<Longrightarrow> \<bar>n\<bar> \<le> 9007199254740991 \<Longrightarrow> (Safe m = Safe n) = (m = n)"
  by (simp add: Safe_inject)

lemma insert_index_map_of:
  "k \<notin> fst ` set kvs \<Longrightarrow> map_of (insert_index i (k, v) kvs) = (map_of kvs)(k \<mapsto> v)"
proof (induction kvs)
  case Nil
  then show ?case by simp
next
  case (Cons e es)
  obtain k' v' where e: "e = (k', v')" by (cases e)
  have ne: "k' \<noteq> k" and n: "k \<notin> fst ` set es" using Cons.prems by (auto simp: e)
  show ?case
    using Cons.IH[OF n] ne by (auto simp: e fun_eq_iff split: option.splits)
qed

lemma obj_put_map_of: "map_of (obj_put k v kvs) = (map_of kvs)(k \<mapsto> v)"
proof (cases "k \<in> fst ` set kvs")
  case True
  then show ?thesis by (simp add: obj_put_def update_conv')
next
  case False
  then have n: "map_of kvs k = None" by (simp add: map_of_eq_None_iff)
  have "map_of (kvs @ [(k, v)]) = (map_of kvs)(k \<mapsto> v)"
    using n by (auto simp: fun_eq_iff map_add_def split: option.splits)
  then show ?thesis
    using False by (simp add: obj_put_def insert_index_map_of split: option.splits)
qed

lemma obj_put_plain: "array_index k = None \<Longrightarrow> obj_put k v kvs = AList.update k v kvs"
proof (induction kvs)
  case Nil
  then show ?case by (simp add: obj_put_def)
next
  case (Cons e es)
  have "k \<notin> fst ` set es \<Longrightarrow> AList.update k v es = es @ [(k, v)]"
    using Cons by (simp add: obj_put_def)
  then show ?case
    using Cons.prems by (auto simp: obj_put_def)
qed

lemma obj_put_keys: "fst ` set (obj_put k v kvs) = insert k (fst ` set kvs)"
proof -
  have "dom (map_of (obj_put k v kvs)) = insert k (dom (map_of kvs))"
    by (simp add: obj_put_map_of)
  then show ?thesis by (simp add: dom_map_of_conv_image_fst)
qed

lemma record_key_plain:
  "k \<in> set record_keys \<Longrightarrow> k \<notin> set object_prototype_keys \<and> k \<notin> set number_prototype_keys"
  by (auto simp: record_keys_def object_prototype_keys_def number_prototype_keys_def)

lemma no_digit_no_index: "\<not> is_digit (hd k) \<Longrightarrow> array_index k = None"
  unfolding array_index_def by (cases k) (simp_all del: show_nat.simps)

lemma record_key_no_index: "k \<in> set record_keys \<Longrightarrow> array_index k = None"
  by (rule no_digit_no_index) (auto simp: record_keys_def is_digit_def)

lemma array_index_shown: "array_index k = Some i \<Longrightarrow> show_nat i = k"
  unfolding array_index_def by (cases "k \<noteq> [] \<and> list_all is_digit k \<and> show_nat (digits_value k) = k
         \<and> digits_value k < 4294967295") (simp_all del: show_nat.simps)

lemma array_index_inject: "array_index k = Some i \<Longrightarrow> array_index k' = Some i \<Longrightarrow> k = k'"
  using array_index_shown by blast

text \<open>
  Reading a record key: from an object its own property, from anything else but
  \<^verbatim>\<open>null\<close> and \<^verbatim>\<open>undefined\<close> nothing. The key \<^verbatim>\<open>filter\<close> is read from objects only.
\<close>

lemma get_prop_record_key:
  assumes "k \<in> set record_keys" "v \<noteq> JNull" "v \<noteq> JUndefined"
    and "k \<noteq> ''filter'' \<or> (\<exists>kvs. v = JObj kvs)"
  shows "get_prop v k = Inr (field v k)"
  using assms record_key_plain[OF assms(1)] record_key_no_index[OF assms(1)]
  by (cases v) (auto split: option.splits)

lemma opt_get_prop_record_key:
  "k \<in> set record_keys \<Longrightarrow> k \<noteq> ''filter'' \<Longrightarrow> opt_get_prop v k = Inr (field v k)"
  by (cases "v = JNull \<or> v = JUndefined") (auto simp: opt_get_prop_def get_prop_record_key)

lemma record_keys_member:
  "''data'' \<in> set record_keys" "''id'' \<in> set record_keys" "''collection'' \<in> set record_keys"
  "''version'' \<in> set record_keys" "''created_at'' \<in> set record_keys"
  "''updated_at'' \<in> set record_keys" "''ttl_at'' \<in> set record_keys"
  "''error'' \<in> set record_keys" "''message'' \<in> set record_keys"
  "''pagination'' \<in> set record_keys" "''q'' \<in> set record_keys" "''order'' \<in> set record_keys"
  "''limit'' \<in> set record_keys" "''page'' \<in> set record_keys" "''filter'' \<in> set record_keys"
  "''baseURL'' \<in> set record_keys" "''apiKey'' \<in> set record_keys"
  by (simp_all add: record_keys_def)

lemma Document_constructor_record:
  assumes "r \<noteq> JNull"
  shows "Document_constructor r client = Inr (document_of_record r client)"
proof -
  define d where "d = (if r = JUndefined then JObj [] else r)"
  have d: "d \<noteq> JNull" "d \<noteq> JUndefined" using assms by (auto simp: d_def)
  have g: "\<And>k. k \<in> set record_keys \<Longrightarrow> k \<noteq> ''filter'' \<Longrightarrow> get_prop d k = Inr (field d k)"
    using d by (intro get_prop_record_key) simp_all
  show ?thesis
    unfolding Document_constructor_def document_of_record_def d_def[symmetric] Let_def
    by (simp add: g record_keys_member bindE_def js_or_def)
qed

lemma Document_constructor_null:
  "Document_constructor JNull client = Inl (TypeError (cannot_read JNull ''data''))"
  by (simp add: Document_constructor_def bindE_def)

lemma S5Client_constructor_obj:
  "S5Client_constructor (JObj cfg) =
     (if \<not> truthy (field (JObj cfg) ''apiKey'') then Inl (Error ''API key is required'')
      else if \<not> truthy (field (JObj cfg) ''collection'') then Inl (Error ''Collection name is required'')
      else Inr \<lparr>baseURL = js_or (field (JObj cfg) ''baseURL'') (JStr ''https://s5.host/api/v1''),
                apiKey = field (JObj cfg) ''apiKey'', collection = field (JObj cfg) ''collection'',
                axios = \<lparr>ax_baseURL = js_or (field (JObj cfg) ''baseURL'') (JStr ''https://s5.host/api/v1''),
                          ax_headers = [(''Authorization'', ''Bearer '' @ to_string (field (JObj cfg) ''apiKey'')),
                                        (''Content-Type'', ''application/json'')]\<rparr>\<rparr>)"
proof -
  have g: "\<And>k. k \<in> set record_keys \<Longrightarrow> get_prop (JObj cfg) k = Inr (field (JObj cfg) k)"
    by (rule get_prop_record_key) simp_all
  show ?thesis
    unfolding S5Client_constructor_def Let_def
    by (simp add: g record_keys_member bindE_def del: get_prop.simps field.simps)
qed

lemma digit_char_values:
  "digit_char 0 = CHR ''0''" "digit_char 1 = CHR ''1''" "digit_char 2 = CHR ''2''"
  "digit_char 3 = CHR ''3''" "digit_char 4 = CHR ''4''" "digit_char 5 = CHR ''5''"
  "digit_char 6 = CHR ''6''" "digit_char 7 = CHR ''7''" "digit_char 8 = CHR ''8''"
  "digit_char 9 = CHR ''9''" "digit_char (Suc 0) = CHR ''1''"
  by code_simp+

lemma users_client_collection: "collection users_client = JStr ''users''"
  by (simp add: users_client_def)

text \<open>The constructor on a reference to a plain object of the store.\<close>

lemma h_get_prop_own_key:
  "a < length s \<Longrightarrow> s ! a = HObject kvs \<Longrightarrow> k \<notin> set object_prototype_keys \<Longrightarrow>
   h_get_prop s (HRef a) k = Inr (hfield kvs k)"
  by (simp add: hfield_def split: option.splits)

lemma new_Document_object:
  assumes "a < length s" "s ! a = HObject kvs"
  shows "new_Document s (HRef a) client =
        Inr (\<lparr>doc_data = (if h_truthy (hfield kvs ''data'') then hfield kvs ''data'' else HRef a),
              doc_client = client, doc_id = hfield kvs ''id'',
              doc_collection = hfield kvs ''collection'', doc_version = hfield kvs ''version'',
              doc_created_at = hfield kvs ''created_at'', doc_updated_at = hfield kvs ''updated_at'',
              doc_ttl_at = hfield kvs ''ttl_at''\<rparr>, s)"
proof -
  have g: "\<And>k. k \<in> set record_keys \<Longrightarrow> h_get_prop s (HRef a) k = Inr (hfield kvs k)"
    using assms record_key_plain by (intro h_get_prop_own_key) simp_all
  show ?thesis
    unfolding new_Document_def Let_def
    by (simp add: g record_keys_member bindE_def del: h_get_prop.simps)
qed

section \<open>get and set\<close>



lemma own_put:
  assumes "h_set_prop s (HRef a) k x = Inr s'"
  shows "a < length s" "length s' = length s" "own_prop (s' ! a) k = Some x"
    "b \<noteq> a \<Longrightarrow> s' ! b = s ! b"
    "k' \<noteq> k \<Longrightarrow> own_prop (s' ! a) k' = own_prop (s ! a) k'"
proof -
  show a: "a < length s" using assms by (auto split: if_splits)
  show "length s' = length s" using assms by (auto split: if_splits hobj.splits option.splits)
  show "own_prop (s' ! a) k = Some x"
    using assms a by (auto split: if_splits hobj.splits option.splits simp: obj_put_map_of nth_append)
  show "b \<noteq> a \<Longrightarrow> s' ! b = s ! b"
    using assms by (auto split: if_splits hobj.splits option.splits)
  show "k' \<noteq> k \<Longrightarrow> own_prop (s' ! a) k' = own_prop (s ! a) k'"
  proof (cases "s ! a")
    case (HObject kvs)
    assume "k' \<noteq> k"
    then show ?thesis
      using assms a HObject by (auto split: if_splits simp: obj_put_map_of)
  next
    case (HArray xs)
    assume n: "k' \<noteq> k"
    from assms a HArray obtain i where i: "array_index k = Some i"
      by (auto split: if_splits option.splits)
    have d: "array_index k' \<noteq> Some i"
      using n i array_index_inject by blast
    show ?thesis
      using assms a HArray i d
      by (cases "array_index k'") (auto split: if_splits simp: nth_append)
  qed
qed

















section \<open>The round trip\<close>

lemma bindE_simps:
  "bindE (Inl e) f = Inl e"
  "bindE (Inr x) f = f x"
  by (simp_all add: bindE_def)

lemma server_message_chain:
  "bindE (opt_get_prop b ''error'') (\<lambda>er. opt_get_prop er ''message'') = Inr (server_message b)"
  by (simp add: opt_get_prop_record_key record_keys_member bindE_simps server_message_def)

lemma op_failed_text:
  "op_failed label (TypeError text) = Error (label @ text)"
  "op_failed label (AxiosError text None) = Error (label @ text)"
  "op_failed label (AxiosError text (Some \<lparr>status = st, body = b\<rparr>)) =
     Error (label @ (if truthy (server_message b) then to_string (server_message b) else text))"
  by (simp_all add: op_failed_def failure_text_def exn_response_def exn_message_def
      server_message_chain bindE_simps js_or_def)

lemma settle_cases:
  "settle (NetworkError text) = Inl (AxiosError text None)"
  "200 \<le> st \<and> st < 300 \<Longrightarrow> settle (Reply st b) = Inr \<lparr>status = st, body = b\<rparr>"
  "\<not> (200 \<le> st \<and> st < 300) \<Longrightarrow>
     settle (Reply st b) =
       Inl (AxiosError (''Request failed with status code '' @ show_int st) (Some \<lparr>status = st, body = b\<rparr>))"
  by (simp_all add: settle_def)

text \<open>The try block shared by the round trips, on a reply.\<close>

lemma record_of_response:
  "bindE (get_prop b ''data'') (\<lambda>r. Document_constructor r (Some client)) =
     (if b = JUndefined then Inl (TypeError (cannot_read JUndefined ''data''))
      else if b = JNull \<or> field b ''data'' = JNull then Inl (TypeError (cannot_read JNull ''data''))
      else Inr (document_of_record (field b ''data'') (Some client)))"
proof (cases "b = JUndefined \<or> b = JNull")
  case True
  then show ?thesis by (auto simp: bindE_simps)
next
  case False
  then have "get_prop b ''data'' = Inr (field b ''data'')"
    by (simp add: get_prop_record_key record_keys_member)
  then show ?thesis
    using False
    by (simp add: bindE_simps Document_constructor_record Document_constructor_null)
qed

lemma round_trip_reply:
  "(case bindE (settle r) (\<lambda>response.
            bindE (get_prop (body response) ''data'') (\<lambda>d. Document_constructor d (Some client))) of
      Inl e \<Rightarrow> Inl (op_failed label e) | Inr d \<Rightarrow> Inr d) =
   (case record_outcome client r of Inl text \<Rightarrow> Inl (Error (label @ text)) | Inr d \<Rightarrow> Inr d)"
proof (cases r)
  case (NetworkError msg)
  then show ?thesis
    by (simp add: settle_cases bindE_simps op_failed_text record_outcome_def)
next
  case (Reply st b)
  show ?thesis
  proof (cases "200 \<le> st \<and> st < 300")
    case True
    then show ?thesis
      unfolding Reply
      by (simp add: settle_cases bindE_simps record_of_response op_failed_text record_outcome_def)
  next
    case False
    then have nf: "(200 \<le> st \<and> st < 300) = False" by simp
    show ?thesis
      unfolding Reply
      by (simp add: settle_cases(3)[OF False] bindE_simps op_failed_text record_outcome_def
          reported_text_def nf)
  qed
qed

lemma round_trip_outcome:
  assumes "doc_client this = Some client"
  shows "round_trip srv this m url payload label =
     (let rq = axios_request client m (url client) (Some payload) in
      (case record_outcome client (srv rq) of
         Inl text \<Rightarrow> (Inl (Error (label @ text)), this, [rq])
       | Inr newDoc \<Rightarrow> (Inr (), newDoc, [rq])))"
proof -
  let ?rq = "axios_request client m (url client) (Some payload)"
  have "round_trip srv this m url payload label =
      (case (case bindE (settle (srv ?rq)) (\<lambda>response.
            bindE (get_prop (body response) ''data'') (\<lambda>d. Document_constructor d (Some client))) of
          Inl e \<Rightarrow> Inl (op_failed label e) | Inr d \<Rightarrow> Inr d) of
        Inl e \<Rightarrow> (Inl e, this, [?rq]) | Inr newDoc \<Rightarrow> (Inr (), newDoc, [?rq]))"
    by (simp add: round_trip_def assms Let_def split: sum.splits)
  also have "\<dots> = (case record_outcome client (srv ?rq) of
         Inl text \<Rightarrow> (Inl (Error (label @ text)), this, [?rq])
       | Inr newDoc \<Rightarrow> (Inr (), newDoc, [?rq]))"
    unfolding round_trip_reply by (simp split: sum.splits)
  finally show ?thesis by (simp add: Let_def)
qed

section \<open>Construction\<close>

text \<open>
  Claim C9. A configuration whose \<^verbatim>\<open>apiKey\<close> and \<^verbatim>\<open>collection\<close> are non-empty strings
  constructs a client, whose axios instance has the headers
  \<^verbatim>\<open>Authorization: Bearer <apiKey>\<close> and \<^verbatim>\<open>Content-Type: application/json\<close>, which every
  request of that client carries. A configuration with no \<^verbatim>\<open>apiKey\<close>, with no
  \<^verbatim>\<open>collection\<close>, or no configuration at all, fails at once with the error that names
  what is required.
\<close>

theorem client_construction:
  "(field (JObj cfg) ''apiKey'' = JStr k \<and> k \<noteq> [] \<and> field (JObj cfg) ''collection'' = JStr c \<and> c \<noteq> [] \<longrightarrow>
      (\<exists>cl. S5Client_constructor (JObj cfg) = Inr cl \<and> apiKey cl = JStr k \<and> collection cl = JStr c
         \<and> ax_headers (axios cl) = [(''Authorization'', ''Bearer '' @ k), (''Content-Type'', ''application/json'')]
         \<and> (\<forall>m url payload. rq_headers (axios_request cl m url payload)
               = [(''Authorization'', ''Bearer '' @ k), (''Content-Type'', ''application/json'')])))
   \<and> (field (JObj cfg) ''apiKey'' = JUndefined \<longrightarrow>
        S5Client_constructor (JObj cfg) = Inl (Error ''API key is required''))
   \<and> (field (JObj cfg) ''collection'' = JUndefined \<longrightarrow>
        S5Client_constructor (JObj cfg) =
          Inl (Error (if truthy (field (JObj cfg) ''apiKey'') then ''Collection name is required''
                      else ''API key is required'')))
   \<and> S5Client_constructor JUndefined = Inl (Error ''API key is required'')"
proof -
  have "S5Client_constructor JUndefined = S5Client_constructor (JObj [])"
    by (simp add: S5Client_constructor_def)
  then show ?thesis
    by (simp add: S5Client_constructor_obj axios_request_def del: field.simps) (simp)
qed

text \<open>
  \<^verbatim>\<open>{apiKey: "ak_1", collection: "users"}\<close> gives the client \<open>users_client\<close>; either key
  left out gives its error.
\<close>

theorem client_construction_witness:
  "S5Client_constructor (JObj [(''apiKey'', JStr ''ak_1''), (''collection'', JStr ''users'')]) = Inr users_client
   \<and> S5Client_constructor (JObj [(''collection'', JStr ''users'')]) = Inl (Error ''API key is required'')
   \<and> S5Client_constructor (JObj [(''apiKey'', JStr ''ak_1'')]) = Inl (Error ''Collection name is required'')"
  using client_construction[of "[(''apiKey'', JStr ''ak_1''), (''collection'', JStr ''users'')]" "''ak_1''" "''users''"]
    client_construction[of "[(''collection'', JStr ''users'')]" "''ak_1''" "''users''"]
    client_construction[of "[(''apiKey'', JStr ''ak_1'')]" "''ak_1''" "''users''"]
  by (auto simp: users_client_def S5Client_constructor_obj js_or_def)

text \<open>
  Claim C10, as amended. For an input object at address \<open>a\<close>, the document's data is the
  input's \<^verbatim>\<open>data\<close> when that value is truthy, and otherwise (no \<^verbatim>\<open>data\<close> key, or a
  falsy one: \<^verbatim>\<open>null\<close>, 0, the empty string, \<^verbatim>\<open>false\<close>) the reference \<open>HRef a\<close> to the
  input itself. The metadata fields are the input's top-level properties either way, and
  the store is as before: nothing is allocated, so nothing is copied. Hence an assignment
  to a property of the input is read through the document's data. A client configuration
  without \<^verbatim>\<open>baseURL\<close> gets the base URL \<^verbatim>\<open>https://s5.host/api/v1\<close>.
\<close>

theorem constructor_payload:
  "(a < length s \<and> s ! a = HObject kvs \<longrightarrow>
      new_Document s (HRef a) client =
        Inr (\<lparr>doc_data = (if h_truthy (hfield kvs ''data'') then hfield kvs ''data'' else HRef a),
              doc_client = client, doc_id = hfield kvs ''id'',
              doc_collection = hfield kvs ''collection'', doc_version = hfield kvs ''version'',
              doc_created_at = hfield kvs ''created_at'', doc_updated_at = hfield kvs ''updated_at'',
              doc_ttl_at = hfield kvs ''ttl_at''\<rparr>, s)
      \<and> (\<not> h_truthy (hfield kvs ''data'') \<and> h_set_prop s (HRef a) k x = Inr s' \<longrightarrow>
           (\<exists>doc. new_Document s (HRef a) client = Inr (doc, s) \<and> doc_data doc = HRef a
              \<and> h_get_prop s' (doc_data doc) k = Inr x)))
   \<and> (field (JObj cfg) ''baseURL'' = JUndefined \<and> truthy (field (JObj cfg) ''apiKey'')
        \<and> truthy (field (JObj cfg) ''collection'') \<longrightarrow>
        (\<exists>cl. S5Client_constructor (JObj cfg) = Inr cl \<and> baseURL cl = JStr ''https://s5.host/api/v1''
           \<and> ax_baseURL (axios cl) = JStr ''https://s5.host/api/v1''))"
proof -
  have c: "field (JObj cfg) ''baseURL'' = JUndefined \<and> truthy (field (JObj cfg) ''apiKey'')
        \<and> truthy (field (JObj cfg) ''collection'') \<longrightarrow>
        (\<exists>cl. S5Client_constructor (JObj cfg) = Inr cl \<and> baseURL cl = JStr ''https://s5.host/api/v1''
           \<and> ax_baseURL (axios cl) = JStr ''https://s5.host/api/v1'')"
    by (simp add: S5Client_constructor_obj js_or_def del: field.simps)
  have d: "a < length s \<and> s ! a = HObject kvs \<longrightarrow>
      new_Document s (HRef a) client =
        Inr (\<lparr>doc_data = (if h_truthy (hfield kvs ''data'') then hfield kvs ''data'' else HRef a),
              doc_client = client, doc_id = hfield kvs ''id'',
              doc_collection = hfield kvs ''collection'', doc_version = hfield kvs ''version'',
              doc_created_at = hfield kvs ''created_at'', doc_updated_at = hfield kvs ''updated_at'',
              doc_ttl_at = hfield kvs ''ttl_at''\<rparr>, s)"
    by (simp add: new_Document_object)
  have e: "a < length s \<and> s ! a = HObject kvs \<and> \<not> h_truthy (hfield kvs ''data'')
        \<and> h_set_prop s (HRef a) k x = Inr s' \<longrightarrow>
           (\<exists>doc. new_Document s (HRef a) client = Inr (doc, s) \<and> doc_data doc = HRef a
              \<and> h_get_prop s' (doc_data doc) k = Inr x)"
  proof (intro impI)
    assume h: "a < length s \<and> s ! a = HObject kvs \<and> \<not> h_truthy (hfield kvs ''data'')
        \<and> h_set_prop s (HRef a) k x = Inr s'"
    then have w: "h_set_prop s (HRef a) k x = Inr s'" by blast
    have "h_get_prop s' (HRef a) k = Inr x"
      using own_put(1,2,3)[OF w] by simp
    then show "\<exists>doc. new_Document s (HRef a) client = Inr (doc, s) \<and> doc_data doc = HRef a
              \<and> h_get_prop s' (doc_data doc) k = Inr x"
      using h by (simp add: new_Document_object)
  qed
  show ?thesis using c d e by blast
qed

text \<open>
  A server record with a \<^verbatim>\<open>data\<close> mapping, whose data is the nested object; a bare
  mapping, which is the data itself, so that renaming Ann through the input renames her
  in the document; and a configuration without \<^verbatim>\<open>baseURL\<close>.
\<close>

theorem constructor_payload_witness:
  "new_Document [HObject [(''id'', HStr ''u1''), (''data'', HRef 1), (''version'', HNum (Safe 3))],
                 HObject [(''name'', HStr ''Ann'')]] (HRef 0) None =
     Inr (\<lparr>doc_data = HRef 1, doc_client = None, doc_id = HStr ''u1'',
           doc_collection = HUndefined, doc_version = HNum (Safe 3), doc_created_at = HUndefined,
           doc_updated_at = HUndefined, doc_ttl_at = HUndefined\<rparr>,
          [HObject [(''id'', HStr ''u1''), (''data'', HRef 1), (''version'', HNum (Safe 3))],
           HObject [(''name'', HStr ''Ann'')]])
   \<and> new_Document [HObject [(''name'', HStr ''Ann'')]] (HRef 0) None =
     Inr (\<lparr>doc_data = HRef 0, doc_client = None, doc_id = HUndefined,
           doc_collection = HUndefined, doc_version = HUndefined, doc_created_at = HUndefined,
           doc_updated_at = HUndefined, doc_ttl_at = HUndefined\<rparr>, [HObject [(''name'', HStr ''Ann'')]])
   \<and> h_set_prop [HObject [(''name'', HStr ''Ann'')]] (HRef 0) ''name'' (HStr ''Bob'')
       = Inr [HObject [(''name'', HStr ''Bob'')]]
   \<and> h_get_prop [HObject [(''name'', HStr ''Bob'')]] (HRef 0) ''name'' = Inr (HStr ''Bob'')
   \<and> map_option baseURL (case S5Client_constructor (JObj [(''apiKey'', JStr ''ak_1''), (''collection'', JStr ''users'')]) of
         Inl e \<Rightarrow> None | Inr cl \<Rightarrow> Some cl) = Some (JStr ''https://s5.host/api/v1'')"
proof -
  have w: "h_set_prop [HObject [(''name'', HStr ''Ann'')]] (HRef 0) ''name'' (HStr ''Bob'')
       = Inr [HObject [(''name'', HStr ''Bob'')]]"
    by (simp add: obj_put_def)
  show ?thesis
    using constructor_payload[of 0 "[HObject [(''id'', HStr ''u1''), (''data'', HRef 1), (''version'', HNum (Safe 3))],
                 HObject [(''name'', HStr ''Ann'')]]" "[(''id'', HStr ''u1''), (''data'', HRef 1), (''version'', HNum (Safe 3))]"
          None "''name''" "HStr ''Bob''" "[]" "[(''apiKey'', JStr ''ak_1''), (''collection'', JStr ''users'')]"]
      constructor_payload[of 0 "[HObject [(''name'', HStr ''Ann'')]]" "[(''name'', HStr ''Ann'')]"
          None "''name''" "HStr ''Bob''" "[HObject [(''name'', HStr ''Bob'')]]"
          "[(''apiKey'', JStr ''ak_1''), (''collection'', JStr ''users'')]"]
      w
    by (auto simp: hfield_def)
qed

text \<open>
  Claim C10 as stated fails on an input that has a \<^verbatim>\<open>data\<close> key with a falsy value: for
  \<^verbatim>\<open>{id: "u1", data: null}\<close> the document's data is not the nested \<^verbatim>\<open>null\<close> but the
  input itself.
\<close>

theorem constructor_falsy_data_key:
  "new_Document [HObject [(''id'', HStr ''u1''), (''data'', HNull)]] (HRef 0) None =
     Inr (\<lparr>doc_data = HRef 0, doc_client = None, doc_id = HStr ''u1'',
           doc_collection = HUndefined, doc_version = HUndefined, doc_created_at = HUndefined,
           doc_updated_at = HUndefined, doc_ttl_at = HUndefined\<rparr>,
          [HObject [(''id'', HStr ''u1''), (''data'', HNull)]])"
  by (simp add: new_Document_object hfield_def)

section \<open>find, destroy, reload and save\<close>

text \<open>
  Claim C1. On a class bound to a client, \<^verbatim>\<open>find(id)\<close> issues one GET of
  \<^verbatim>\<open>/{collection}/{id}\<close>. It returns \<^verbatim>\<open>null\<close> exactly when the server answers with
  status 404. When no answer comes it throws the error \<^verbatim>\<open>Find failed: \<close> followed by the
  transport's text; on an answer outside 200 to 299 other than 404 it throws
  \<^verbatim>\<open>Find failed: \<close> followed by the server's \<^verbatim>\<open>error.message\<close> where the body has a
  non-empty one, and by the transport's text for the status otherwise. On a 2xx answer it
  returns the one document built from the record \<^verbatim>\<open>response.data.data\<close> (a body or a
  record that is \<^verbatim>\<open>null\<close> fails at the read of \<^verbatim>\<open>data\<close>, which the catch block
  reports as \<^verbatim>\<open>Find failed: \<close> too).
\<close>

theorem find_outcome:
  "Document_find (Some client) srv ident =
     (let rq = axios_request client GET (''/'' @ to_string (collection client) @ ''/'' @ to_string ident) None in
      (case srv rq of
         NetworkError msg \<Rightarrow> (Inl (Error (''Find failed: '' @ msg)), [rq])
       | Reply st b \<Rightarrow>
           if st = 404 then (Inr None, [rq])
           else (case record_outcome client (Reply st b) of
                   Inl msg \<Rightarrow> (Inl (Error (''Find failed: '' @ msg)), [rq])
                 | Inr d \<Rightarrow> (Inr (Some d), [rq]))))
   \<and> (fst (Document_find (Some client) srv ident) = Inr None) =
       (\<exists>b. srv (axios_request client GET (''/'' @ to_string (collection client) @ ''/'' @ to_string ident) None)
                = Reply 404 b)"
proof -
  let ?rq = "axios_request client GET (''/'' @ to_string (collection client) @ ''/'' @ to_string ident) None"
  have eq: "Document_find (Some client) srv ident =
      (case srv ?rq of
         NetworkError msg \<Rightarrow> (Inl (Error (''Find failed: '' @ msg)), [?rq])
       | Reply st b \<Rightarrow>
           if st = 404 then (Inr None, [?rq])
           else (case record_outcome client (Reply st b) of
                   Inl msg \<Rightarrow> (Inl (Error (''Find failed: '' @ msg)), [?rq])
                 | Inr d \<Rightarrow> (Inr (Some d), [?rq])))"
  proof (cases "srv ?rq")
    case (NetworkError msg)
    then show ?thesis
      by (simp add: Document_find_def Let_def settle_cases bindE_simps find_catch_def exn_response_def
          op_failed_text)
  next
    case (Reply st b)
    show ?thesis
    proof (cases "200 \<le> st \<and> st < 300")
      case True
      then have n: "st \<noteq> 404" by auto
      have "find_catch (TypeError t) = Inl (Error (''Find failed: '' @ t))" for t
        by (simp add: find_catch_def exn_response_def op_failed_text)
      then show ?thesis
        using True n Reply
        by (simp add: Document_find_def Let_def settle_cases bindE_simps record_of_response
            record_outcome_def)
    next
      case False
      then have nf: "(200 \<le> st \<and> st < 300) = False" by simp
      show ?thesis
        using Reply
        by (simp add: Document_find_def Let_def settle_cases(3)[OF False] bindE_simps find_catch_def
            exn_response_def op_failed_text record_outcome_def reported_text_def nf)
    qed
  qed
  have iff: "(fst (Document_find (Some client) srv ident) = Inr None) = (\<exists>b. srv ?rq = Reply 404 b)"
    unfolding eq by (auto split: reply.splits sum.splits)
  show ?thesis
    unfolding Let_def by (rule conjI[OF eq iff])
qed

text \<open>
  A 404, a 500 with a structured message, a 502 with a text body, no answer, and a 200
  with a record.
\<close>

theorem find_outcome_witness:
  "Document_find (Some users_client) (constant_server (Reply 404 JNull)) (JStr ''u1'') =
     (Inr None, [axios_request users_client GET ''/users/u1'' None])
   \<and> Document_find (Some users_client)
        (constant_server (Reply 500 (JObj [(''error'', JObj [(''message'', JStr ''boom'')])]))) (JStr ''u1'') =
     (Inl (Error ''Find failed: boom''), [axios_request users_client GET ''/users/u1'' None])
   \<and> Document_find (Some users_client) (constant_server (Reply 502 (JStr ''Bad Gateway''))) (JStr ''u1'') =
     (Inl (Error ''Find failed: Request failed with status code 502''),
      [axios_request users_client GET ''/users/u1'' None])
   \<and> Document_find (Some users_client) (constant_server (NetworkError ''Network Error'')) (JStr ''u1'') =
     (Inl (Error ''Find failed: Network Error''), [axios_request users_client GET ''/users/u1'' None])
   \<and> Document_find (Some users_client)
        (constant_server (Reply 200 (JObj [(''data'', JObj [(''id'', JStr ''u1''),
            (''data'', JObj [(''name'', JStr ''Ann'')])])]))) (JStr ''u1'') =
     (Inr (Some ((blank_document (JStr ''u1'') (JObj [(''name'', JStr ''Ann'')])))),
      [axios_request users_client GET ''/users/u1'' None])"
proof -
  have a: "Document_find (Some users_client) (constant_server (Reply 404 JNull)) (JStr ''u1'') =
     (Inr None, [axios_request users_client GET ''/users/u1'' None])"
    using find_outcome[of users_client "constant_server (Reply 404 JNull)" "JStr ''u1''"]
    by (simp add: constant_server_def users_client_collection)
  have b: "Document_find (Some users_client)
        (constant_server (Reply 500 (JObj [(''error'', JObj [(''message'', JStr ''boom'')])]))) (JStr ''u1'') =
     (Inl (Error ''Find failed: boom''), [axios_request users_client GET ''/users/u1'' None])"
    using find_outcome[of users_client "constant_server (Reply 500 (JObj [(''error'', JObj [(''message'', JStr ''boom'')])]))" "JStr ''u1''"]
    by (simp add: constant_server_def users_client_collection record_outcome_def reported_text_def
        server_message_def)
  have c: "Document_find (Some users_client) (constant_server (Reply 502 (JStr ''Bad Gateway''))) (JStr ''u1'') =
     (Inl (Error ''Find failed: Request failed with status code 502''),
      [axios_request users_client GET ''/users/u1'' None])"
    using find_outcome[of users_client "constant_server (Reply 502 (JStr ''Bad Gateway''))" "JStr ''u1''"]
    by (simp add: constant_server_def users_client_collection record_outcome_def reported_text_def
        server_message_def show_int_def digit_char_values)
  have d: "Document_find (Some users_client) (constant_server (NetworkError ''Network Error'')) (JStr ''u1'') =
     (Inl (Error ''Find failed: Network Error''), [axios_request users_client GET ''/users/u1'' None])"
    using find_outcome[of users_client "constant_server (NetworkError ''Network Error'')" "JStr ''u1''"]
    by (simp add: constant_server_def users_client_collection)
  have e: "Document_find (Some users_client)
        (constant_server (Reply 200 (JObj [(''data'', JObj [(''id'', JStr ''u1''),
            (''data'', JObj [(''name'', JStr ''Ann'')])])]))) (JStr ''u1'') =
     (Inr (Some ((blank_document (JStr ''u1'') (JObj [(''name'', JStr ''Ann'')])))),
      [axios_request users_client GET ''/users/u1'' None])"
    using find_outcome[of users_client "constant_server (Reply 200 (JObj [(''data'', JObj [(''id'', JStr ''u1''),
            (''data'', JObj [(''name'', JStr ''Ann'')])])]))" "JStr ''u1''"]
    by (simp add: constant_server_def users_client_collection record_outcome_def
        document_of_record_def blank_document_def)
  from a b c d e show ?thesis by blast
qed

text \<open>
  Claim C7. \<^verbatim>\<open>destroy()\<close> on a document of a client issues the one request
  \<^verbatim>\<open>DELETE /{collection}/{id}\<close>. It returns \<^verbatim>\<open>true\<close> on an answer from 200 to 299, and
  throws the error \<^verbatim>\<open>Delete failed: \<close> with the reported text on any other answer and when
  no answer comes. The document afterwards is the document before, field for field.
\<close>

theorem destroy_outcome:
  assumes "doc_client this = Some client"
  shows "Document_destroy srv this =
     (let rq = axios_request client DELETE
                 (''/'' @ to_string (collection client) @ ''/'' @ to_string (doc_id this)) None in
      (if answered_2xx (srv rq) then Inr True
       else Inl (Error (''Delete failed: '' @ reported_text (srv rq))), this, [rq]))"
proof -
  let ?rq = "axios_request client DELETE
                 (''/'' @ to_string (collection client) @ ''/'' @ to_string (doc_id this)) None"
  show ?thesis
  proof (cases "srv ?rq")
    case (NetworkError msg)
    then show ?thesis
      by (simp add: Document_destroy_def assms Let_def settle_cases op_failed_text answered_2xx_def
          reported_text_def)
  next
    case (Reply st b)
    show ?thesis
    proof (cases "200 \<le> st \<and> st < 300")
      case True
      then show ?thesis
        using Reply by (simp add: Document_destroy_def assms Let_def settle_cases answered_2xx_def)
    next
      case False
      then have nf: "(200 \<le> st \<and> st < 300) = False" by simp
      show ?thesis
        using Reply
        by (simp add: Document_destroy_def assms Let_def settle_cases(3)[OF False] op_failed_text
            answered_2xx_def reported_text_def nf)
    qed
  qed
qed

text \<open>
  A 204 with an empty body, and a 403 with a structured message.
\<close>

theorem destroy_outcome_witness:
  "Document_destroy (constant_server (Reply 204 (JStr ''''))) (blank_document (JStr ''u1'') (JObj [(''name'', JStr ''Ann'')])) =
     (Inr True, blank_document (JStr ''u1'') (JObj [(''name'', JStr ''Ann'')]),
      [axios_request users_client DELETE ''/users/u1'' None])
   \<and> Document_destroy (constant_server (Reply 403 (JObj [(''error'', JObj [(''message'', JStr ''forbidden'')])])))
        (blank_document (JStr ''u1'') (JObj [(''name'', JStr ''Ann'')])) =
     (Inl (Error ''Delete failed: forbidden''), blank_document (JStr ''u1'') (JObj [(''name'', JStr ''Ann'')]),
      [axios_request users_client DELETE ''/users/u1'' None])"
  using destroy_outcome[of "blank_document (JStr ''u1'') (JObj [(''name'', JStr ''Ann'')])" users_client
      "constant_server (Reply 204 (JStr ''''))"]
    destroy_outcome[of "blank_document (JStr ''u1'') (JObj [(''name'', JStr ''Ann'')])" users_client
      "constant_server (Reply 403 (JObj [(''error'', JObj [(''message'', JStr ''forbidden'')])]))"]
  by (simp add: constant_server_def Let_def answered_2xx_def reported_text_def server_message_def
      blank_document_def users_client_collection)

text \<open>
  Claim C4 says that \<^verbatim>\<open>reload()\<close> on a document with an id fetches the record by that
  id and overwrites the local fields, and leaves them on not-found. The code does the
  first part of the claim only: without an id it throws the precondition error and issues
  no request. With an id it calls \<^verbatim>\<open>Document.find\<close>, the static method on the base
  class, whose static \<^verbatim>\<open>client\<close> is \<^verbatim>\<open>undefined\<close>: \<^verbatim>\<open>client.axios\<close> throws inside the
  \<^verbatim>\<open>try\<close> of \<^verbatim>\<open>find\<close>, so \<^verbatim>\<open>reload()\<close> throws \<^verbatim>\<open>Find failed: ...\<close> for every
  server, issues no request and changes no field.
\<close>

theorem reload_never_fetches:
  "Document_reload srv this =
     (Inl (Error (if truthy (doc_id this) then ''Find failed: '' @ cannot_read JUndefined ''axios''
                  else ''Cannot reload document without ID'')), this, [])"
  by (simp add: Document_reload_def Document_class_def Document_find_def find_catch_def
      exn_response_def op_failed_text)

text \<open>
  Claim C5. \<^verbatim>\<open>save()\<close> on a document of a client issues one request with the body
  \<^verbatim>\<open>{data, ttl_at}\<close> of the document: a POST to \<^verbatim>\<open>/{collection}\<close> when the id is absent
  (falsy), a PUT to \<^verbatim>\<open>/{collection}/{id}\<close> when it is present. When the round trip
  succeeds the document becomes the document of the server's record: every field is the
  record's. When it fails the error carries the label of the path taken and the document
  is unchanged.
\<close>

theorem save_outcome:
  assumes "doc_client this = Some client"
  shows "Document_save srv this =
     (let payload = JObj [(''data'', doc_data this), (''ttl_at'', doc_ttl_at this)];
          rq = (if truthy (doc_id this)
                then axios_request client PUT
                       (''/'' @ to_string (collection client) @ ''/'' @ to_string (doc_id this)) (Some payload)
                else axios_request client POST (''/'' @ to_string (collection client)) (Some payload));
          label = (if truthy (doc_id this) then ''Update failed: '' else ''Create failed: '')
      in (case record_outcome client (srv rq) of
            Inl msg \<Rightarrow> (Inl (Error (label @ msg)), this, [rq])
          | Inr newDoc \<Rightarrow> (Inr (), newDoc, [rq])))"
proof -
  have c: "doc_client (this\<lparr>doc_data := d\<rparr>) = Some client" for d
    using assms by simp
  show ?thesis
    by (simp add: Document_save_def Document_update_def Document_create_def
        round_trip_outcome[OF assms] Let_def cong: sum.case_cong)
qed

text \<open>
  A new document is created by a POST and takes the server's id; a document with an id is
  updated by a PUT and takes the server's data.
\<close>

theorem save_outcome_witness:
  "Document_save (constant_server (Reply 201 (JObj [(''data'',
        JObj [(''id'', JStr ''u1''), (''data'', JObj [(''name'', JStr ''Ann'')])])])))
      (blank_document JUndefined (JObj [(''name'', JStr ''Ann'')])) =
     (Inr (), blank_document (JStr ''u1'') (JObj [(''name'', JStr ''Ann'')]),
      [axios_request users_client POST ''/users''
         (Some (JObj [(''data'', JObj [(''name'', JStr ''Ann'')]), (''ttl_at'', JUndefined)]))])
   \<and> Document_save (constant_server (Reply 200 (JObj [(''data'',
        JObj [(''id'', JStr ''u1''), (''data'', JObj [(''name'', JStr ''Bob'')])])])))
      (blank_document (JStr ''u1'') (JObj [(''name'', JStr ''Ann'')])) =
     (Inr (), blank_document (JStr ''u1'') (JObj [(''name'', JStr ''Bob'')]),
      [axios_request users_client PUT ''/users/u1''
         (Some (JObj [(''data'', JObj [(''name'', JStr ''Ann'')]), (''ttl_at'', JUndefined)]))])"
  using save_outcome[of "blank_document JUndefined (JObj [(''name'', JStr ''Ann'')])" users_client
      "constant_server (Reply 201 (JObj [(''data'',
        JObj [(''id'', JStr ''u1''), (''data'', JObj [(''name'', JStr ''Ann'')])])]))"]
    save_outcome[of "blank_document (JStr ''u1'') (JObj [(''name'', JStr ''Ann'')])" users_client
      "constant_server (Reply 200 (JObj [(''data'',
        JObj [(''id'', JStr ''u1''), (''data'', JObj [(''name'', JStr ''Bob'')])])]))"]
  by (simp add: constant_server_def Let_def record_outcome_def document_of_record_def
      blank_document_def users_client_collection)

section \<open>update\<close>

lemma assign_all_map_of: "map_of (assign_all es acc) = map_of acc ++ map_of (rev es)"
proof (induction es arbitrary: acc)
  case Nil
  then show ?case by (simp add: assign_all_def)
next
  case (Cons e es)
  obtain k v where e: "e = (k, v)" by (cases e)
  have "map_of (assign_all (e # es) acc) = map_of (assign_all es (obj_put k v acc))"
    by (simp add: assign_all_def e)
  also have "\<dots> = map_of (obj_put k v acc) ++ map_of (rev es)"
    by (rule Cons.IH)
  also have "\<dots> = map_of acc ++ map_of (rev (e # es))"
    by (simp add: obj_put_map_of e)
  finally show ?case .
qed

lemma map_of_rev_distinct: "distinct (map fst es) \<Longrightarrow> map_of (rev es) = map_of es"
proof (induction es)
  case Nil
  then show ?case by simp
next
  case (Cons e es)
  obtain k v where e: "e = (k, v)" by (cases e)
  have n: "map_of es k = None" using Cons.prems by (simp add: e map_of_eq_None_iff)
  have "map_of (rev (e # es)) = [k \<mapsto> v] ++ map_of es"
    using Cons by (simp add: e)
  also have "\<dots> = (map_of es)(k \<mapsto> v)"
    using n by (auto simp: map_add_def fun_eq_iff split: option.splits)
  finally show ?case by (simp add: e)
qed

lemma spread2_objects:
  assumes "distinct (map fst kvs)" "distinct (map fst ds)"
  shows "\<exists>merged. spread2 (JObj kvs) (JObj ds) = JObj merged \<and> map_of merged = map_of kvs ++ map_of ds"
  using assms by (simp add: spread2_def assign_all_map_of map_of_rev_distinct)

text \<open>
  Claim C8. For a mapping \<open>d\<close> and a document of a client whose data is a mapping,
  \<^verbatim>\<open>update(d)\<close> first replaces the local data with the shallow merge of the two: a
  top-level key has the value \<open>d\<close> gives it, and the value the old data gives it where
  \<open>d\<close> has none. Then it issues the PUT of the update path, whose body carries the merged
  data. The merge stays when the round trip fails; when it succeeds the document becomes
  the document of the server's record.
\<close>

theorem update_merges:
  assumes "doc_client this = Some client"
    and "doc_data this = JObj kvs" and "distinct (map fst kvs)" and "distinct (map fst ds)"
  shows "\<exists>merged.
     spread2 (doc_data this) (JObj ds) = JObj merged
     \<and> map_of merged = map_of kvs ++ map_of ds
     \<and> Document_update srv this (JObj ds) =
        (let this1 = this\<lparr>doc_data := JObj merged\<rparr>;
             rq = axios_request client PUT
                    (''/'' @ to_string (collection client) @ ''/'' @ to_string (doc_id this))
                    (Some (JObj [(''data'', JObj merged), (''ttl_at'', doc_ttl_at this)]))
         in (case record_outcome client (srv rq) of
               Inl msg \<Rightarrow> (Inl (Error (''Update failed: '' @ msg)), this1, [rq])
             | Inr newDoc \<Rightarrow> (Inr (), newDoc, [rq])))"
proof -
  from spread2_objects[OF assms(3,4)]
  obtain merged where m: "spread2 (JObj kvs) (JObj ds) = JObj merged"
    and l: "map_of merged = map_of kvs ++ map_of ds" by blast
  have c: "doc_client (this\<lparr>doc_data := JObj merged\<rparr>) = Some client"
    using assms(1) by simp
  have "Document_update srv this (JObj ds) =
        (let this1 = this\<lparr>doc_data := JObj merged\<rparr>;
             rq = axios_request client PUT
                    (''/'' @ to_string (collection client) @ ''/'' @ to_string (doc_id this))
                    (Some (JObj [(''data'', JObj merged), (''ttl_at'', doc_ttl_at this)]))
         in (case record_outcome client (srv rq) of
               Inl msg \<Rightarrow> (Inl (Error (''Update failed: '' @ msg)), this1, [rq])
             | Inr newDoc \<Rightarrow> (Inr (), newDoc, [rq])))"
    by (simp add: Document_update_def assms(2) m round_trip_outcome[OF c] Let_def cong: sum.case_cong)
  with m l show ?thesis by (auto simp: assms(2))
qed

text \<open>
  \<^verbatim>\<open>{name: "Ann", age: 30}\<close> updated with \<^verbatim>\<open>{age: 31, city: "Oslo"}\<close> while the
  server is unreachable: the request carries the merged data, and the merge stays in
  the document.
\<close>

theorem update_merges_witness:
  "Document_update (constant_server (NetworkError ''timeout''))
      (blank_document (JStr ''u1'') (JObj [(''name'', JStr ''Ann''), (''age'', JNum (Safe 30))]))
      (JObj [(''age'', JNum (Safe 31)), (''city'', JStr ''Oslo'')]) =
     (Inl (Error ''Update failed: timeout''),
      blank_document (JStr ''u1'') (JObj [(''name'', JStr ''Ann''), (''age'', JNum (Safe 31)), (''city'', JStr ''Oslo'')]),
      [axios_request users_client PUT ''/users/u1''
         (Some (JObj [(''data'', JObj [(''name'', JStr ''Ann''), (''age'', JNum (Safe 31)), (''city'', JStr ''Oslo'')]),
                      (''ttl_at'', JUndefined)]))])"
  using update_merges[of "blank_document (JStr ''u1'') (JObj [(''name'', JStr ''Ann''), (''age'', JNum (Safe 30))])"
      users_client "[(''name'', JStr ''Ann''), (''age'', JNum (Safe 30))]" "[(''age'', JNum (Safe 31)), (''city'', JStr ''Oslo'')]"
      "constant_server (NetworkError ''timeout'')"]
  by (simp add: blank_document_def spread2_def assign_all_def constant_server_def record_outcome_def
      users_client_collection Let_def obj_put_plain array_index_def is_digit_def)

section \<open>where, count and first\<close>

lemma fold_params_append:
  "fold (\<lambda>x ps. params_append ps name x) xs ps = ps @ map (\<lambda>x. (name, to_string x)) xs"
  by (induction xs arbitrary: ps) (simp_all add: params_append_def)

lemma append_each_param: "append_each ps name v = ps @ each_param name v"
  by (simp add: append_each_def each_param_def fold_params_append)

lemma where_params_obj:
  "where_params (JObj kvs) =
     Inr (each_param ''q'' (field (JObj kvs) ''q'') @ each_param ''order'' (field (JObj kvs) ''order'')
          @ one_param ''limit'' (field (JObj kvs) ''limit'') @ one_param ''page'' (field (JObj kvs) ''page'')
          @ filter_param (field (JObj kvs) ''filter''))"
proof -
  have g: "\<And>k. k \<in> set record_keys \<Longrightarrow> get_prop (JObj kvs) k = Inr (field (JObj kvs) k)"
    by (rule get_prop_record_key) simp_all
  show ?thesis
    unfolding where_params_def Let_def
    by (simp add: g record_keys_member bindE_simps append_each_param one_param_def filter_param_def
        params_append_def del: get_prop.simps field.simps)
qed

lemma where_params_undefined: "where_params JUndefined = Inr []"
proof -
  have "where_params JUndefined = where_params (JObj [])"
    by (simp add: where_params_def)
  then show ?thesis
    by (simp add: where_params_obj each_param_def one_param_def filter_param_def)
qed

lemma where_request:
  assumes "where_params options = Inr ps"
  shows "snd (Document_where (Some client) srv options) =
     [axios_request client GET (''/'' @ to_string (collection client) @ ''?'' @ urlencoded_serialize ps) None]"
  by (simp add: Document_where_def assms Let_def split: sum.splits)





text \<open>
  Claim C3, as amended. For an options object whose \<^verbatim>\<open>q\<close> and \<^verbatim>\<open>order\<close> are lists
  of strings, whose \<^verbatim>\<open>limit\<close> and \<^verbatim>\<open>page\<close> are numbers and whose \<^verbatim>\<open>filter\<close> is a
  mapping (each of the five given or left out), \<^verbatim>\<open>where\<close> builds these parameters, in
  this order: one \<^verbatim>\<open>q\<close> parameter for each string of the \<^verbatim>\<open>q\<close> list, carrying the string
  as it is, in the order of the list; one \<^verbatim>\<open>order\<close> parameter for each entry of the
  \<^verbatim>\<open>order\<close> list, in its order; the \<^verbatim>\<open>limit\<close> and the \<^verbatim>\<open>page\<close> as decimal text when
  they are not 0, and nothing for a \<^verbatim>\<open>limit\<close> or \<^verbatim>\<open>page\<close> of 0; one \<^verbatim>\<open>filter\<close>
  parameter carrying \<^verbatim>\<open>JSON.stringify(filter)\<close>. The request is a GET of
  \<^verbatim>\<open>/{collection}?\<close> followed by the serialised parameters, and with no options the
  query string is empty.
\<close>

theorem where_query:
  assumes "field (JObj kvs) ''q'' = opt_field (\<lambda>xs. JArr (map JStr xs)) qs"
    and "field (JObj kvs) ''order'' = opt_field (\<lambda>xs. JArr (map JStr xs)) orders"
    and "field (JObj kvs) ''limit'' = opt_field JNum lim"
    and "field (JObj kvs) ''page'' = opt_field JNum pg"
    and "field (JObj kvs) ''filter'' = opt_field JObj flt"
  shows "where_params (JObj kvs) =
       Inr (map (Pair ''q'') (case qs of None \<Rightarrow> [] | Some xs \<Rightarrow> xs)
            @ map (Pair ''order'') (case orders of None \<Rightarrow> [] | Some xs \<Rightarrow> xs)
            @ (case lim of None \<Rightarrow> []
               | Some n \<Rightarrow> if int_of n = 0 then [] else [(''limit'', show_int (int_of n))])
            @ (case pg of None \<Rightarrow> []
               | Some n \<Rightarrow> if int_of n = 0 then [] else [(''page'', show_int (int_of n))])
            @ (case flt of None \<Rightarrow> [] | Some f \<Rightarrow> [(''filter'', to_string (JSON_stringify (JObj f)))]))
     \<and> (\<exists>ps. where_params (JObj kvs) = Inr ps
          \<and> snd (Document_where (Some client) srv (JObj kvs)) =
              [axios_request client GET
                 (''/'' @ to_string (collection client) @ ''?'' @ urlencoded_serialize ps) None])
     \<and> where_params JUndefined = Inr [] \<and> urlencoded_serialize [] = []
     \<and> snd (Document_where (Some client) srv JUndefined) =
          [axios_request client GET (''/'' @ to_string (collection client) @ ''?'') None]"
proof -
  have q: "each_param ''q'' (opt_field (\<lambda>xs. JArr (map JStr xs)) qs)
      = map (Pair ''q'') (case qs of None \<Rightarrow> [] | Some xs \<Rightarrow> xs)"
    by (cases qs) (simp_all add: each_param_def opt_field_def as_list_def comp_def)
  have o: "each_param ''order'' (opt_field (\<lambda>xs. JArr (map JStr xs)) orders)
      = map (Pair ''order'') (case orders of None \<Rightarrow> [] | Some xs \<Rightarrow> xs)"
    by (cases orders) (simp_all add: each_param_def opt_field_def as_list_def comp_def)
  have l: "one_param name (opt_field JNum x)
      = (case x of None \<Rightarrow> [] | Some n \<Rightarrow> if int_of n = 0 then [] else [(name, show_int (int_of n))])" for name x
    by (cases x) (simp_all add: one_param_def opt_field_def)
  have f: "filter_param (opt_field JObj flt)
      = (case flt of None \<Rightarrow> [] | Some f \<Rightarrow> [(''filter'', to_string (JSON_stringify (JObj f)))])"
    by (cases flt) (simp_all add: filter_param_def opt_field_def)
  have p: "where_params (JObj kvs) =
       Inr (map (Pair ''q'') (case qs of None \<Rightarrow> [] | Some xs \<Rightarrow> xs)
            @ map (Pair ''order'') (case orders of None \<Rightarrow> [] | Some xs \<Rightarrow> xs)
            @ (case lim of None \<Rightarrow> []
               | Some n \<Rightarrow> if int_of n = 0 then [] else [(''limit'', show_int (int_of n))])
            @ (case pg of None \<Rightarrow> []
               | Some n \<Rightarrow> if int_of n = 0 then [] else [(''page'', show_int (int_of n))])
            @ (case flt of None \<Rightarrow> [] | Some f \<Rightarrow> [(''filter'', to_string (JSON_stringify (JObj f)))]))"
    unfolding where_params_obj assms q o l f ..
  have r: "\<exists>ps. where_params (JObj kvs) = Inr ps
          \<and> snd (Document_where (Some client) srv (JObj kvs)) =
              [axios_request client GET
                 (''/'' @ to_string (collection client) @ ''?'' @ urlencoded_serialize ps) None]"
    using where_request[OF where_params_obj] where_params_obj by blast
  have e: "urlencoded_serialize [] = []"
    by (simp add: urlencoded_serialize_def)
  have u: "snd (Document_where (Some client) srv JUndefined) =
          [axios_request client GET (''/'' @ to_string (collection client) @ ''?'') None]"
    using where_request[OF where_params_undefined, of client srv] by (simp add: e)
  from p r where_params_undefined e u show ?thesis by blast
qed


lemma filter_text_example:
  "to_string (JSON_stringify (JObj [(''eq'', JObj [(''status'', JStr ''active'')])]))
     = ''{\"eq\":{\"status\":\"active\"}}''"
  by code_simp

lemma serialize_example:
  "urlencoded_serialize
     [(''q'', ''eq(status,\"active\")''), (''q'', ''gt(score,100)''), (''order'', ''-name''),
      (''limit'', ''50''), (''page'', ''2''), (''filter'', ''{\"eq\":{\"status\":\"active\"}}'')]
   = ''q=eq%28status%2C%22active%22%29&q=gt%28score%2C100%29&order=-name&limit=50&page=2&filter=%7B%22eq%22%3A%7B%22status%22%3A%22active%22%7D%7D''"
  by code_simp

text \<open>
  The options
  \<^verbatim>\<open>{q: ['eq(status,"active")', 'gt(score,100)'], order: ['-name'], limit: 50, page: 2,
    filter: {eq: {status: "active"}}}\<close>.
\<close>

theorem where_query_witness:
  "where_params (JObj [(''q'', JArr [JStr ''eq(status,\"active\")'', JStr ''gt(score,100)'']),
                       (''order'', JArr [JStr ''-name'']), (''limit'', JNum (Safe 50)), (''page'', JNum (Safe 2)),
                       (''filter'', JObj [(''eq'', JObj [(''status'', JStr ''active'')])])])
     = Inr [(''q'', ''eq(status,\"active\")''), (''q'', ''gt(score,100)''), (''order'', ''-name''),
            (''limit'', ''50''), (''page'', ''2''), (''filter'', ''{\"eq\":{\"status\":\"active\"}}'')]
   \<and> snd (Document_where (Some users_client) (constant_server (NetworkError ''down''))
        (JObj [(''q'', JArr [JStr ''eq(status,\"active\")'', JStr ''gt(score,100)'']),
               (''order'', JArr [JStr ''-name'']), (''limit'', JNum (Safe 50)), (''page'', JNum (Safe 2)),
               (''filter'', JObj [(''eq'', JObj [(''status'', JStr ''active'')])])]))
     = [axios_request users_client GET
          ''/users?q=eq%28status%2C%22active%22%29&q=gt%28score%2C100%29&order=-name&limit=50&page=2&filter=%7B%22eq%22%3A%7B%22status%22%3A%22active%22%7D%7D''
          None]"
proof -
  let ?kvs = "[(''q'', JArr [JStr ''eq(status,\"active\")'', JStr ''gt(score,100)'']),
               (''order'', JArr [JStr ''-name'']), (''limit'', JNum (Safe 50)), (''page'', JNum (Safe 2)),
               (''filter'', JObj [(''eq'', JObj [(''status'', JStr ''active'')])])]"
  have h: "field (JObj ?kvs) ''q'' = opt_field (\<lambda>xs. JArr (map JStr xs)) (Some [''eq(status,\"active\")'', ''gt(score,100)''])"
    "field (JObj ?kvs) ''order'' = opt_field (\<lambda>xs. JArr (map JStr xs)) (Some [''-name''])"
    "field (JObj ?kvs) ''limit'' = opt_field JNum (Some (Safe 50))"
    "field (JObj ?kvs) ''page'' = opt_field JNum (Some (Safe 2))"
    "field (JObj ?kvs) ''filter'' = opt_field JObj (Some [(''eq'', JObj [(''status'', JStr ''active'')])])"
    by (simp_all add: opt_field_def)
  note w = where_query[OF h, of users_client "constant_server (NetworkError ''down'')"]
  have p: "where_params (JObj ?kvs)
     = Inr [(''q'', ''eq(status,\"active\")''), (''q'', ''gt(score,100)''), (''order'', ''-name''),
            (''limit'', ''50''), (''page'', ''2''), (''filter'', ''{\"eq\":{\"status\":\"active\"}}'')]"
    using w by (simp add: show_int_def digit_char_values filter_text_example int_of_Safe)
  from w obtain ps where "where_params (JObj ?kvs) = Inr ps"
    and "snd (Document_where (Some users_client) (constant_server (NetworkError ''down'')) (JObj ?kvs)) =
              [axios_request users_client GET
                 (''/'' @ to_string (collection users_client) @ ''?'' @ urlencoded_serialize ps) None]"
    by blast
  with p have "snd (Document_where (Some users_client) (constant_server (NetworkError ''down'')) (JObj ?kvs)) =
     [axios_request users_client GET
          ''/users?q=eq%28status%2C%22active%22%29&q=gt%28score%2C100%29&order=-name&limit=50&page=2&filter=%7B%22eq%22%3A%7B%22status%22%3A%22active%22%7D%7D''
          None]"
    by (simp add: users_client_collection serialize_example)
  with p show ?thesis by blast
qed

text \<open>
  Claim C3 as stated fails for a supplied \<^verbatim>\<open>limit\<close> or \<^verbatim>\<open>page\<close> of 0: the guards
  \<^verbatim>\<open>if (options.limit)\<close> and \<^verbatim>\<open>if (options.page)\<close> test truthiness, so
  \<^verbatim>\<open>where({limit: 0, page: 0})\<close> forwards neither.
\<close>

theorem where_drops_zero_limit_and_page:
  "where_params (JObj [(''limit'', JNum (Safe 0)), (''page'', JNum (Safe 0))]) = Inr []"
  by (simp add: where_params_obj each_param_def one_param_def filter_param_def int_of_Safe)









end
